theory Spec2Isabelle
  imports Main
begin

section \<open>Enumerations and their helpers (Constants, EnumHelpers)\<close>

text \<open>
  The members of \<^verbatim>\<open>CardType\<close> are those \<^verbatim>\<open>getCardTypesForFilter\<close> lists for the
  wildcard \<^verbatim>\<open>Any\<close>; a card type filter is a card type or one of the three wildcards.
\<close>

datatype cardType =
  CardType_Base | CardType_Event | CardType_Leader | CardType_NonLeaderUnit
  | CardType_Upgrade | CardType_TokenUnit | CardType_TokenUpgrade | CardType_LeaderUnit

datatype cardTypeFilter =
  CardType cardType
  | WildcardCardType_Any | WildcardCardType_Unit | WildcardCardType_Token

text \<open>
  The locations Player.js names, and any other string as the name of an additional pile.
\<close>

datatype location =
  Location_Hand | Location_Deck | Location_Discard | Location_Resource
  | Location_RemovedFromGame | Location_SpaceArena | Location_GroundArena
  | Location_Base | Location_Leader | Location_Other string

datatype locationFilter =
  Location location
  | WildcardLocation_Any | WildcardLocation_AnyArena | WildcardLocation_AnyAttackable

datatype stage = Stage_PreTarget | Stage_Cost | Stage_Target | Stage_EffectTmp

fun isArena :: "locationFilter \<Rightarrow> bool" where
  "isArena (Location Location_GroundArena) = True"
| "isArena (Location Location_SpaceArena) = True"
| "isArena WildcardLocation_AnyArena = True"
| "isArena _ = False"

fun isAttackableLocation :: "locationFilter \<Rightarrow> bool" where
  "isAttackableLocation (Location Location_GroundArena) = True"
| "isAttackableLocation (Location Location_SpaceArena) = True"
| "isAttackableLocation WildcardLocation_AnyArena = True"
| "isAttackableLocation (Location Location_Base) = True"
| "isAttackableLocation _ = False"

text \<open>\<^verbatim>\<open>Array.prototype.some\<close>.\<close>

fun some :: "('a \<Rightarrow> bool) \<Rightarrow> 'a list \<Rightarrow> bool" where
  "some f [] = False"
| "some f (x # xs) = (if f x then True else some f xs)"

definition cardLocationMatches :: "location \<Rightarrow> locationFilter list \<Rightarrow> bool" where
  "cardLocationMatches cardLocation locationFilter =
     some (\<lambda>allowedLocation.
        case allowedLocation of
          WildcardLocation_Any \<Rightarrow> True
        | WildcardLocation_AnyArena \<Rightarrow> isArena (Location cardLocation)
        | WildcardLocation_AnyAttackable \<Rightarrow> isAttackableLocation (Location cardLocation)
        | Location l \<Rightarrow> cardLocation = l) locationFilter"

fun isUnit :: "cardTypeFilter \<Rightarrow> bool" where
  "isUnit WildcardCardType_Unit = True"
| "isUnit (CardType CardType_NonLeaderUnit) = True"
| "isUnit (CardType CardType_LeaderUnit) = True"
| "isUnit (CardType CardType_TokenUnit) = True"
| "isUnit _ = False"

fun isToken :: "cardTypeFilter \<Rightarrow> bool" where
  "isToken WildcardCardType_Token = True"
| "isToken (CardType CardType_TokenUpgrade) = True"
| "isToken (CardType CardType_TokenUnit) = True"
| "isToken _ = False"

definition cardTypeMatches :: "cardType \<Rightarrow> cardTypeFilter list \<Rightarrow> bool" where
  "cardTypeMatches cardType cardTypeFilter =
     some (\<lambda>allowedCardType.
        case allowedCardType of
          WildcardCardType_Any \<Rightarrow> True
        | WildcardCardType_Unit \<Rightarrow> isUnit (CardType cardType)
        | WildcardCardType_Token \<Rightarrow> isToken (CardType cardType)
        | CardType t \<Rightarrow> cardType = t) cardTypeFilter"

fun getCardTypesForFilter :: "cardTypeFilter \<Rightarrow> cardType list" where
  "getCardTypesForFilter WildcardCardType_Any =
     [CardType_Base, CardType_Event, CardType_Leader, CardType_NonLeaderUnit, CardType_Upgrade,
      CardType_TokenUnit, CardType_TokenUpgrade, CardType_LeaderUnit]"
| "getCardTypesForFilter WildcardCardType_Unit =
     [CardType_NonLeaderUnit, CardType_LeaderUnit, CardType_TokenUnit]"
| "getCardTypesForFilter WildcardCardType_Token = [CardType_TokenUnit, CardType_TokenUpgrade]"
| "getCardTypesForFilter (CardType t) = [t]"

section \<open>Cost adjustment (Player.js)\<close>

text \<open>
  The enums of Constants are string enums; the ones the cost arithmetic only passes on
  to the adjusters are kept as strings.
\<close>

type_synonym aspect = string
type_synonym playType = string

text \<open>
  JavaScript numbers as far as the cost arithmetic needs them: the integers, and minus
  infinity, which is what \<^verbatim>\<open>Math.max()\<close> returns when it is given no argument.
\<close>

datatype jsnum = NegInfinity | Num int

fun Math_max_spread :: "int list \<Rightarrow> jsnum" where
  "Math_max_spread [] = NegInfinity"
| "Math_max_spread (x # xs) =
     (case Math_max_spread xs of NegInfinity \<Rightarrow> Num x | Num m \<Rightarrow> Num (max x m))"

fun Math_min :: "int \<Rightarrow> jsnum \<Rightarrow> jsnum" where
  "Math_min a NegInfinity = NegInfinity"
| "Math_min a (Num b) = Num (min a b)"

fun Math_max :: "int \<Rightarrow> jsnum \<Rightarrow> int" where
  "Math_max a NegInfinity = a"
| "Math_max a (Num b) = max a b"

text \<open>
  A card as the cost computation reads it (\<^verbatim>\<open>card.cost\<close>), and a cost adjuster. The
  class CostAdjuster is not among the source files: its three members used by Player are
  fields here. \<^verbatim>\<open>getAmount(card, this)\<close> is always called with the player itself.
\<close>

record costCard =
  cost :: int
  title :: string

record costAdjuster =
  canAdjust :: "playType \<Rightarrow> costCard \<Rightarrow> costCard option \<Rightarrow> bool \<Rightarrow> aspect option \<Rightarrow> bool"
  getAmount :: "costCard \<Rightarrow> int"
  costFloor :: int

text \<open>
  The arrays of aspects live in a store: \<^verbatim>\<open>getAspects\<close> allocates a new array with
  \<^verbatim>\<open>concat\<close> and \<^verbatim>\<open>getPenaltyAspects\<close> removes elements of it in place with
  \<^verbatim>\<open>splice\<close>. A reference is an index of the store; allocation appends.
\<close>

type_synonym ref = nat
type_synonym store = "aspect list list"

text \<open>
  Modelled from the spec: \<^verbatim>\<open>Contract\<close> is not among the source files; a failed
  contract is an invariant violation, fatal to the pipeline. An operation that does not
  return ends with a type error of the language or with a failed contract.
\<close>

datatype error = TypeError | ContractFailure

text \<open>
  The fields of a player the code here reads and writes. The piles are arrays of cards
  that are changed in place; a field holds the reference of its array in the store of
  card arrays of the game. \<open>additionalPiles\<close> gives the array \<^verbatim>\<open>cards\<close> of the pile
  of a name, if there is a pile of that name.
\<close>

record player =
  leader :: "ref option"
  base :: "ref option"
  costAdjusters :: "costAdjuster list"
  hand :: ref
  drawDeck :: ref
  resources :: ref
  spaceArena :: ref
  groundArena :: ref
  discard :: ref
  removedFromGame :: ref
  additionalPiles :: "location \<Rightarrow> ref option"
  baseZone :: ref
  leaderZone :: ref

definition alloc :: "store \<Rightarrow> aspect list \<Rightarrow> ref \<times> store" where
  "alloc h xs = (length h, h @ [xs])"

definition deref :: "store \<Rightarrow> ref \<Rightarrow> aspect list" where
  "deref h r = (if r < length h then h ! r else [])"

definition assign :: "store \<Rightarrow> ref \<Rightarrow> aspect list \<Rightarrow> store" where
  "assign h r xs = (if r < length h then h[r := xs] else h)"

text \<open>
  \<^verbatim>\<open>this.leader.aspects.concat(this.base.aspects)\<close>: the leader and the base are
  \<^verbatim>\<open>null\<close> until a deck is selected, and reading \<^verbatim>\<open>.aspects\<close> of null throws.
\<close>

definition getAspects :: "player \<Rightarrow> store \<Rightarrow> error + (ref \<times> store)" where
  "getAspects p h =
     (case leader p of
        None \<Rightarrow> Inl TypeError
      | Some l \<Rightarrow>
          (case base p of
             None \<Rightarrow> Inl TypeError
           | Some b \<Rightarrow> Inr (alloc h (deref h l @ deref h b))))"

fun indexOf :: "'a list \<Rightarrow> 'a \<Rightarrow> int" where
  "indexOf [] a = -1"
| "indexOf (x # xs) a =
     (if x = a then 0 else (let i = indexOf xs a in if i = -1 then -1 else i + 1))"

definition splice1 :: "'a list \<Rightarrow> int \<Rightarrow> 'a list" where
  "splice1 xs i = take (nat i) xs @ drop (nat i + 1) xs"

text \<open>The loop of \<^verbatim>\<open>getPenaltyAspects\<close> over \<^verbatim>\<open>costAspects\<close>.\<close>

fun penaltyLoop :: "ref \<Rightarrow> aspect list \<Rightarrow> aspect list \<Rightarrow> store \<Rightarrow> aspect list \<times> store" where
  "penaltyLoop playerAspects [] penaltyAspects h = (penaltyAspects, h)"
| "penaltyLoop playerAspects (aspect # rest) penaltyAspects h =
     (let matchedIndex = indexOf (deref h playerAspects) aspect in
      if matchedIndex = -1
      then penaltyLoop playerAspects rest (penaltyAspects @ [aspect]) h
      else penaltyLoop playerAspects rest penaltyAspects
             (assign h playerAspects (splice1 (deref h playerAspects) matchedIndex)))"

definition getPenaltyAspects ::
  "player \<Rightarrow> aspect list option \<Rightarrow> store \<Rightarrow> error + (aspect list \<times> store)" where
  "getPenaltyAspects p costAspects h =
     (case costAspects of
        None \<Rightarrow> Inr ([], h)
      | Some cs \<Rightarrow>
          (case getAspects p h of
             Inl e \<Rightarrow> Inl e
           | Inr (playerAspects, h') \<Rightarrow> Inr (penaltyLoop playerAspects cs [] h')))"

definition runAdjustersForCostType ::
  "player \<Rightarrow> playType \<Rightarrow> int \<Rightarrow> costCard \<Rightarrow> costCard option \<Rightarrow> bool \<Rightarrow> aspect option \<Rightarrow> int"
  where
  "runAdjustersForCostType p playingType baseCost crd target ignoreType penaltyAspect =
     (let matchingAdjusters =
            filter (\<lambda>adjuster. canAdjust adjuster playingType crd target ignoreType penaltyAspect)
              (costAdjusters p);
          costIncreases =
            foldl (\<lambda>cost adjuster. cost - getAmount adjuster crd) 0
              (filter (\<lambda>a. getAmount a crd < 0) matchingAdjusters);
          costDecreases =
            foldl (\<lambda>cost adjuster. cost + getAmount adjuster crd) 0
              (filter (\<lambda>a. getAmount a crd > 0) matchingAdjusters);
          baseCost' = baseCost + costIncreases;
          reducedCost = baseCost' - costDecreases;
          costFloor' = Math_min baseCost' (Math_max_spread (map costFloor matchingAdjusters))
      in Math_max reducedCost costFloor')"

text \<open>The loop of \<^verbatim>\<open>getAdjustedCost\<close> over the penalty aspects.\<close>

fun aspectPenalties ::
  "player \<Rightarrow> playType \<Rightarrow> costCard \<Rightarrow> costCard option \<Rightarrow> bool \<Rightarrow> aspect list \<Rightarrow> int \<Rightarrow> int"
  where
  "aspectPenalties p playingType crd target ignoreType [] aspectPenaltiesTotal =
     aspectPenaltiesTotal"
| "aspectPenalties p playingType crd target ignoreType (aspect # rest) aspectPenaltiesTotal =
     aspectPenalties p playingType crd target ignoreType rest
       (aspectPenaltiesTotal +
        runAdjustersForCostType p playingType 2 crd target ignoreType (Some aspect))"

definition getAdjustedCost ::
  "player \<Rightarrow> playType \<Rightarrow> costCard \<Rightarrow> costCard option \<Rightarrow> bool \<Rightarrow> aspect list option \<Rightarrow> store
     \<Rightarrow> error + (int \<times> store)" where
  "getAdjustedCost p playingType crd target ignoreType aspects h =
     (case getPenaltyAspects p aspects h of
        Inl e \<Rightarrow> Inl e
      | Inr (penaltyAspects, h') \<Rightarrow>
          (let aspectPenaltiesTotal =
                 aspectPenalties p playingType crd target ignoreType penaltyAspects 0;
               penalizedCost = cost crd + aspectPenaltiesTotal
           in Inr (runAdjustersForCostType p playingType penalizedCost crd target ignoreType None,
                   h')))"

subsection \<open>Quantities used to state the properties of the cost adjustment\<close>


text \<open>The quantities the description of an adjuster pass names.\<close>

definition matching ::
  "player \<Rightarrow> playType \<Rightarrow> costCard \<Rightarrow> costCard option \<Rightarrow> bool \<Rightarrow> aspect option \<Rightarrow> costAdjuster list"
  where
  "matching p playingType crd target ignoreType penaltyAspect =
     filter (\<lambda>a. canAdjust a playingType crd target ignoreType penaltyAspect) (costAdjusters p)"

definition sumIncreases :: "costCard \<Rightarrow> costAdjuster list \<Rightarrow> int" where
  "sumIncreases crd as = (\<Sum>a\<leftarrow>filter (\<lambda>a. getAmount a crd < 0) as. - getAmount a crd)"

definition sumDecreases :: "costCard \<Rightarrow> costAdjuster list \<Rightarrow> int" where
  "sumDecreases crd as = (\<Sum>a\<leftarrow>filter (\<lambda>a. getAmount a crd > 0) as. getAmount a crd)"

text \<open>The penalty loop as a function of the contents of the array it works on.\<close>

fun penaltyPure :: "aspect list \<Rightarrow> aspect list \<Rightarrow> aspect list \<Rightarrow> aspect list" where
  "penaltyPure playerAspects [] penaltyAspects = penaltyAspects"
| "penaltyPure playerAspects (aspect # rest) penaltyAspects =
     (let matchedIndex = indexOf playerAspects aspect in
      if matchedIndex = -1
      then penaltyPure playerAspects rest (penaltyAspects @ [aspect])
      else penaltyPure (splice1 playerAspects matchedIndex) rest penaltyAspects)"

text \<open>Every reference the player holds points into the store.\<close>

definition wf_store :: "player \<Rightarrow> store \<Rightarrow> bool" where
  "wf_store p h = ((case leader p of None \<Rightarrow> True | Some l \<Rightarrow> l < length h) \<and>
                   (case base p of None \<Rightarrow> True | Some b \<Rightarrow> b < length h))"

text \<open>
  The scenario of a 2-cost card with one aspect penalty and one adjuster that reduces the
  cost by 1 with floor 0.
\<close>

definition discountAdjuster :: costAdjuster where
  "discountAdjuster =
     \<lparr>canAdjust = (\<lambda>playingType crd target ignoreType penaltyAspect. penaltyAspect = None),
      getAmount = (\<lambda>crd. 1), costFloor = 0\<rparr>"

definition scenarioPlayer :: player where
  "scenarioPlayer =
     \<lparr>leader = Some 0, base = Some 1, costAdjusters = [discountAdjuster],
      hand = 0, drawDeck = 1, resources = 2, spaceArena = 3, groundArena = 4, discard = 5,
      removedFromGame = 6, additionalPiles = (\<lambda>location. None), baseZone = 7,
      leaderZone = 8\<rparr>"

definition scenarioStore :: store where
  "scenarioStore = [[''command''], [''vigilance'']]"

definition scenarioCard :: costCard where
  "scenarioCard = \<lparr>cost = 2, title = ''scenario card''\<rparr>"


subsection \<open>Legal locations (Player.js)\<close>

text \<open>
  \<^verbatim>\<open>Helpers.defaultLegalLocationsForCardType\<close> is not among the source files: the table
  is the parameter \<open>defaultLegalLocationsForCardType\<close>, \<open>None\<close> where it gives no list.
\<close>

definition isLegalLocationForCardType ::
  "(cardType \<Rightarrow> locationFilter list option) \<Rightarrow> player \<Rightarrow> cardType \<Rightarrow> location \<Rightarrow> bool" where
  "isLegalLocationForCardType defaultLegalLocationsForCardType p cardType location =
     (if additionalPiles p location \<noteq> None then True
      else (case defaultLegalLocationsForCardType cardType of
              None \<Rightarrow> False
            | Some legalLocationsForType \<Rightarrow> cardLocationMatches location legalLocationsForType))"

section \<open>Game systems (GameSystem, CardTargetSystem)\<close>

subsection \<open>The game state\<close>

text \<open>
  Cards, players and ability contexts are objects: the state holds them by reference, a
  reference being a number. \<open>hasRestriction\<close> holds the answers of the method of that
  name of cards and players (not among the source files) in this state, \<open>messages\<close> the
  chat log, \<open>arrays\<close> the store of the arrays of cards that are the piles of the
  players, and \<open>other\<close> whatever else of the game the code outside these files reads
  and writes. Of a card, \<open>cardIsUnit\<close> is the answer of its method \<^verbatim>\<open>isUnit()\<close> and
  \<open>defaultController\<close> what its method \<^verbatim>\<open>setDefaultController\<close> was last given (the
  class of the cards is not among the source files).
\<close>

datatype target = Card nat | Player nat

record cardObj =
  uuid :: string
  type :: cardType
  location :: location
  controller :: nat
  owner :: nat
  upgrades :: "nat list option"
  parentCard :: "nat option"
  cardIsUnit :: bool
  defaultController :: "nat option"

record abilityContext =
  stage :: stage
  gameActionsResolutionChain :: "nat list"
  source :: nat

datatype messageArg =
  ArgCard nat | ArgPlayer nat | ArgLocation location | ArgEffect string "target list"
  | ArgUndefined

type_synonym message = "string \<times> messageArg list"

record 'x game =
  cards :: "nat \<Rightarrow> cardObj"
  players :: "nat \<Rightarrow> player"
  contexts :: "nat \<Rightarrow> abilityContext"
  hasRestriction :: "target \<Rightarrow> string \<Rightarrow> nat \<Rightarrow> bool"
  messages :: "message list"
  frameworkContext :: nat
  arrays :: "nat list list"
  other :: 'x

definition addMessage :: "'x game \<Rightarrow> string \<Rightarrow> messageArg list \<Rightarrow> 'x game" where
  "addMessage g format args = g\<lparr>messages := messages g @ [(format, args)]\<rparr>"

subsection \<open>Properties of a system\<close>

text \<open>
  A property object: a key that is absent is \<open>None\<close>. The value of \<^verbatim>\<open>target\<close> is one
  object or an array, and \<^verbatim>\<open>null\<close> or \<^verbatim>\<open>undefined\<close> may stand for an object.
\<close>

datatype targetValue = Single "target option" | Array "target option list"

record properties =
  target :: "targetValue option"
  cannotBeCancelled :: "bool option"
  optional :: "bool option"
  destination :: "location option"

definition noProperties :: properties where
  "noProperties = \<lparr>target = None, cannotBeCancelled = None, optional = None, destination = None\<rparr>"

text \<open>\<^verbatim>\<open>Object.assign(a, b)\<close>: the keys of \<open>b\<close> replace those of \<open>a\<close>.\<close>

definition Object_assign :: "properties \<Rightarrow> properties \<Rightarrow> properties" where
  "Object_assign a b =
     \<lparr>target = (case target b of None \<Rightarrow> target a | Some v \<Rightarrow> Some v),
      cannotBeCancelled = (case cannotBeCancelled b of None \<Rightarrow> cannotBeCancelled a | Some v \<Rightarrow> Some v),
      optional = (case optional b of None \<Rightarrow> optional a | Some v \<Rightarrow> Some v),
      destination = (case destination b of None \<Rightarrow> destination a | Some v \<Rightarrow> Some v)\<rparr>"

text \<open>
  What the constructor of a system is given: nothing, preset properties, or a function
  that computes the properties from the context when the system resolves.
\<close>

datatype 'x propertiesOrPropertyFactory =
  Undefined
  | Properties properties
  | PropertyFactory "'x game \<Rightarrow> nat \<Rightarrow> properties"

text \<open>
  The fields of an event that are data. \<^verbatim>\<open>event.card\<close> holds whatever target the
  event was generated for; \<open>eventOptions\<close> is the field \<^verbatim>\<open>bottom\<close> of the object
  \<^verbatim>\<open>event.options\<close>, \<open>None\<close> when the event has no options.
\<close>

record eventData =
  name :: string
  cannotBeCancelledEvent :: bool
  eventContext :: "nat option"
  eventCard :: "target option"
  cancelled :: bool
  order :: int
  isContingent :: bool
  eventDestination :: "location option"
  eventOptions :: "bool option"

text \<open>
  A system. \<open>systemRef\<close> is the identity of the object. \<open>isCardTargetSystem\<close> tells the
  class CardTargetSystem from the base class GameSystem, whose \<^verbatim>\<open>isTargetTypeValid\<close> and
  \<^verbatim>\<open>eventHandler\<close> are abstract: the fields \<open>isTargetTypeValidImpl\<close> and
  \<open>eventHandler\<close> are the implementation of the concrete class.
\<close>

record 'x gameSystem =
  systemRef :: nat
  systemName :: string
  eventName :: string
  effectDescription :: string
  isCardTargetSystem :: bool
  targetTypeFilter :: "cardTypeFilter list"
  isTargetTypeValidImpl :: "'x game \<Rightarrow> target \<Rightarrow> bool"
  eventHandler :: "eventData \<Rightarrow> properties \<Rightarrow> 'x game \<Rightarrow> error + eventData \<times> 'x game"
  propertiesOrFactory :: "'x propertiesOrPropertyFactory"
  getDefaultTargets :: "('x game \<Rightarrow> nat \<Rightarrow> targetValue) option"

definition defaultProperties :: properties where
  "defaultProperties =
     \<lparr>target = None, cannotBeCancelled = Some False, optional = Some False, destination = None\<rparr>"

definition defaultTargets :: "'x gameSystem \<Rightarrow> 'x game \<Rightarrow> nat \<Rightarrow> targetValue" where
  "defaultTargets sys g context =
     (if isCardTargetSystem sys then Array [Some (Card (source (contexts g context)))]
      else Array [])"

text \<open>The properties after \<^verbatim>\<open>generatePropertiesFromContext\<close>: the target is a list.\<close>

record generatedProperties =
  targetList :: "target list"
  cannotBeCancelledG :: bool
  optionalG :: bool
  destinationG :: "location option"

definition filterBoolean :: "'a option list \<Rightarrow> 'a list" where
  "filterBoolean xs = List.map_filter (\<lambda>x. x) xs"

definition generatePropertiesFromContext ::
  "'x gameSystem \<Rightarrow> 'x game \<Rightarrow> nat \<Rightarrow> properties \<Rightarrow> generatedProperties" where
  "generatePropertiesFromContext sys g context additionalProperties =
     (let dflt = (case getDefaultTargets sys of
                    None \<Rightarrow> defaultTargets sys g context
                  | Some f \<Rightarrow> f g context);
          own = (case propertiesOrFactory sys of
                   Undefined \<Rightarrow> noProperties
                 | Properties ps \<Rightarrow> ps
                 | PropertyFactory f \<Rightarrow> f g context);
          properties =
            Object_assign
              (Object_assign
                 (Object_assign (noProperties\<lparr>target := Some dflt\<rparr>) defaultProperties)
                 additionalProperties)
              own;
          targets = (case target properties of
                       None \<Rightarrow> []
                     | Some (Single t) \<Rightarrow> filterBoolean [t]
                     | Some (Array ts) \<Rightarrow> filterBoolean ts)
      in \<lparr>targetList = targets,
          cannotBeCancelledG = (cannotBeCancelled properties = Some True),
          optionalG = (optional properties = Some True),
          destinationG = destination properties\<rparr>)"

subsection \<open>Legality of a target\<close>

definition isTargetTypeValid :: "'x gameSystem \<Rightarrow> 'x game \<Rightarrow> target \<Rightarrow> bool" where
  "isTargetTypeValid sys g t =
     (if isCardTargetSystem sys
      then (case t of
              Card c \<Rightarrow> cardTypeMatches (type (cards g c)) (targetTypeFilter sys)
            | Player p \<Rightarrow> False)
      else isTargetTypeValidImpl sys g t)"

definition arrayIncludes :: "'a list \<Rightarrow> 'a \<Rightarrow> bool" where
  "arrayIncludes xs x = some (\<lambda>y. y = x) xs"

definition canAffect :: "'x gameSystem \<Rightarrow> 'x game \<Rightarrow> target \<Rightarrow> nat \<Rightarrow> properties \<Rightarrow> bool" where
  "canAffect sys g t context additionalProperties =
     (let cannotBeCancelled =
            cannotBeCancelledG (generatePropertiesFromContext sys g context additionalProperties)
      in isTargetTypeValid sys g t \<and>
         \<not> arrayIncludes (gameActionsResolutionChain (contexts g context)) (systemRef sys) \<and>
         ((stage (contexts g context) = Stage_EffectTmp \<and> cannotBeCancelled) \<or>
          \<not> hasRestriction g t (systemName sys) context))"

definition targets :: "'x gameSystem \<Rightarrow> 'x game \<Rightarrow> nat \<Rightarrow> properties \<Rightarrow> target list" where
  "targets sys g context additionalProperties =
     targetList (generatePropertiesFromContext sys g context additionalProperties)"

text \<open>The loops of \<^verbatim>\<open>hasLegalTarget\<close> and \<^verbatim>\<open>allTargetsLegal\<close>.\<close>

fun hasLegalTargetLoop ::
  "'x gameSystem \<Rightarrow> 'x game \<Rightarrow> nat \<Rightarrow> properties \<Rightarrow> target list \<Rightarrow> bool" where
  "hasLegalTargetLoop sys g context additionalProperties [] = False"
| "hasLegalTargetLoop sys g context additionalProperties (candidateTarget # rest) =
     (if canAffect sys g candidateTarget context additionalProperties then True
      else hasLegalTargetLoop sys g context additionalProperties rest)"

definition hasLegalTarget :: "'x gameSystem \<Rightarrow> 'x game \<Rightarrow> nat \<Rightarrow> properties \<Rightarrow> bool" where
  "hasLegalTarget sys g context additionalProperties =
     hasLegalTargetLoop sys g context additionalProperties
       (targets sys g context additionalProperties)"

fun allTargetsLegalLoop ::
  "'x gameSystem \<Rightarrow> 'x game \<Rightarrow> nat \<Rightarrow> properties \<Rightarrow> target list \<Rightarrow> bool" where
  "allTargetsLegalLoop sys g context additionalProperties [] = True"
| "allTargetsLegalLoop sys g context additionalProperties (candidateTarget # rest) =
     (if \<not> canAffect sys g candidateTarget context additionalProperties then False
      else allTargetsLegalLoop sys g context additionalProperties rest)"

definition allTargetsLegal :: "'x gameSystem \<Rightarrow> 'x game \<Rightarrow> nat \<Rightarrow> properties \<Rightarrow> bool" where
  "allTargetsLegal sys g context additionalProperties =
     allTargetsLegalLoop sys g context additionalProperties
       (targets sys g context additionalProperties)"

subsection \<open>Events\<close>

text \<open>
  The closures an event carries are kept as data: what they capture, and a function
  that runs them. \<open>CheckEventCondition sys ps\<close> is the closure
  \<^verbatim>\<open>() => this.checkEventCondition(event, additionalProperties)\<close> of \<^verbatim>\<open>updateEvent\<close>;
  \<open>ContingentCondition previousCondition upgrade c\<close> is the closure
  \<^verbatim>\<open>previousCondition(attachmentEvent) && upgrade.parentCard === event.card\<close> of
  \<^verbatim>\<open>createContingentEvents\<close>, \<open>c\<close> being the card of the primary event;
  \<open>EventHandler sys ps\<close> is \<^verbatim>\<open>(event) => this.eventHandler(event, additionalProperties)\<close>.
\<close>

datatype 'x condition =
  ConditionDefault
  | CheckEventCondition "'x gameSystem" properties
  | ContingentCondition "'x condition" nat "target option"

datatype 'x handler =
  HandlerDefault
  | EventHandler "'x gameSystem" properties

record 'x gameEvent = eventData +
  condition :: "'x condition"
  handler :: "'x handler"

definition EventName_Unnamed :: string where
  "EventName_Unnamed = ''unnamed''"

text \<open>
  Modelled from the spec: the class GameEvent is not among the source files. An event
  has a name, a target, a condition re-checked before it applies, a cancelled flag, an
  ordering key, a handler; a new event is not cancelled and not contingent, its
  condition holds and its handler does nothing.
\<close>

definition GameEvent_new :: "string \<Rightarrow> bool \<Rightarrow> 'x gameEvent" where
  "GameEvent_new n cannotBeCancelled' =
     \<lparr>name = n, cannotBeCancelledEvent = cannotBeCancelled', eventContext = None,
      eventCard = None, cancelled = False, order = 0, isContingent = False,
      eventDestination = None, eventOptions = None, condition = ConditionDefault,
      handler = HandlerDefault\<rparr>"

text \<open>
  Modelled from the spec: \<^verbatim>\<open>cancel()\<close> of GameEvent, which is not among the source
  files, sets the cancelled flag of the event.
\<close>

definition cancel :: "'x gameEvent \<Rightarrow> 'x gameEvent" where
  "cancel event = event\<lparr>cancelled := True\<rparr>"

text \<open>
  \<^verbatim>\<open>createEvent\<close> (the closure \<^verbatim>\<open>checkFullyResolved\<close> it stores is left out: nothing
  here runs it), \<^verbatim>\<open>addPropertiesToEvent\<close>, \<^verbatim>\<open>updateEvent\<close>, \<^verbatim>\<open>generateEvent\<close>.
\<close>

definition createEvent ::
  "'x gameSystem \<Rightarrow> 'x game \<Rightarrow> target \<Rightarrow> nat \<Rightarrow> properties \<Rightarrow> 'x gameEvent" where
  "createEvent sys g t context additionalProperties =
     GameEvent_new EventName_Unnamed
       (cannotBeCancelledG (generatePropertiesFromContext sys g context additionalProperties))"

definition addPropertiesToEvent ::
  "'x gameSystem \<Rightarrow> 'x gameEvent \<Rightarrow> target \<Rightarrow> nat \<Rightarrow> properties \<Rightarrow> 'x gameEvent" where
  "addPropertiesToEvent sys event t context additionalProperties =
     (if isCardTargetSystem sys
      then event\<lparr>eventContext := Some context, eventCard := Some t\<rparr>
      else event\<lparr>eventContext := Some context\<rparr>)"

definition updateEvent ::
  "'x gameSystem \<Rightarrow> 'x gameEvent \<Rightarrow> target \<Rightarrow> nat \<Rightarrow> properties \<Rightarrow> 'x gameEvent" where
  "updateEvent sys event t context additionalProperties =
     (addPropertiesToEvent sys (event\<lparr>name := eventName sys\<rparr>) t context additionalProperties)
       \<lparr>condition := CheckEventCondition sys additionalProperties,
        handler := EventHandler sys additionalProperties\<rparr>"

definition generateEvent ::
  "'x gameSystem \<Rightarrow> 'x game \<Rightarrow> target \<Rightarrow> nat \<Rightarrow> properties \<Rightarrow> 'x gameEvent" where
  "generateEvent sys g t context additionalProperties =
     updateEvent sys (createEvent sys g t context additionalProperties) t context
       additionalProperties"

text \<open>
  \<^verbatim>\<open>checkEventCondition\<close>: true in the base class, \<^verbatim>\<open>canAffect(event.card, event.context)\<close>
  in a card target system, read in the state in which the condition is evaluated. An
  event without a context makes \<^verbatim>\<open>generatePropertiesFromContext\<close> throw; an event
  without a card has a target that is not a card.
\<close>

definition checkEventCondition ::
  "'x gameSystem \<Rightarrow> 'x game \<Rightarrow> ('a eventData_scheme) \<Rightarrow> properties \<Rightarrow> error + bool" where
  "checkEventCondition sys g event additionalProperties =
     (if isCardTargetSystem sys
      then (case eventContext event of
              None \<Rightarrow> Inl TypeError
            | Some context \<Rightarrow>
                (case eventCard event of
                   None \<Rightarrow> Inr False
                 | Some t \<Rightarrow> Inr (canAffect sys g t context additionalProperties)))
      else Inr True)"

fun evalCondition :: "'x game \<Rightarrow> ('a eventData_scheme) \<Rightarrow> 'x condition \<Rightarrow> error + bool" where
  "evalCondition g event ConditionDefault = Inr True"
| "evalCondition g event (CheckEventCondition sys additionalProperties) =
     checkEventCondition sys g event additionalProperties"
| "evalCondition g event (ContingentCondition previousCondition upgrade c) =
     (case evalCondition g event previousCondition of
        Inl e \<Rightarrow> Inl e
      | Inr False \<Rightarrow> Inr False
      | Inr True \<Rightarrow> Inr (map_option Card (parentCard (cards g upgrade)) = c))"

definition runHandler :: "'x gameEvent \<Rightarrow> 'x game \<Rightarrow> error + 'x gameEvent \<times> 'x game" where
  "runHandler event g =
     (case handler event of
        HandlerDefault \<Rightarrow> Inr (event, g)
      | EventHandler sys additionalProperties \<Rightarrow>
          (case eventHandler sys (eventData.truncate event) additionalProperties g of
             Inl e \<Rightarrow> Inl e
           | Inr (d, g') \<Rightarrow>
               Inr (eventData.extend d (gameEvent.fields (condition event) (handler event)), g')))"

text \<open>
  Modelled from the spec: the event window is not among the source files. When it
  resolves an event it checks the condition again immediately before applying it; the
  handler of a cancelled event, or of one whose condition fails, never runs.
\<close>

definition resolveEvent :: "'x gameEvent \<Rightarrow> 'x game \<Rightarrow> error + 'x gameEvent \<times> 'x game" where
  "resolveEvent event g =
     (if cancelled event then Inr (event, g)
      else (case evalCondition g event (condition event) of
              Inl e \<Rightarrow> Inl e
            | Inr False \<Rightarrow> Inr (event, g)
            | Inr True \<Rightarrow> runHandler event g))"

subsection \<open>Leaving play (CardTargetSystem)\<close>

text \<open>
  \<^verbatim>\<open>addLeavesPlayPropertiesToEvent\<close>; the closure \<^verbatim>\<open>createContingentEvents\<close> it stores
  is the function of that name below, which runs when the window calls it.
\<close>

definition addLeavesPlayPropertiesToEvent ::
  "'x gameSystem \<Rightarrow> 'x game \<Rightarrow> 'x gameEvent \<Rightarrow> target \<Rightarrow> nat \<Rightarrow> properties \<Rightarrow> 'x gameEvent"
  where
  "addLeavesPlayPropertiesToEvent sys g event t context additionalProperties =
     (let properties = generatePropertiesFromContext sys g context additionalProperties
      in (updateEvent sys event t context additionalProperties)
           \<lparr>eventDestination :=
              Some (case destinationG properties of None \<Rightarrow> Location_Discard | Some d \<Rightarrow> d)\<rparr>)"

text \<open>
  The loop of \<^verbatim>\<open>createContingentEvents\<close> over the upgrades of the card of the event.
  \<open>defeat\<close> is the system \<^verbatim>\<open>context.game.actions.defeat()\<close> returns (the library of
  systems is not among the source files).
\<close>

fun contingentLoop ::
  "'x gameSystem \<Rightarrow> 'x game \<Rightarrow> 'x gameEvent \<Rightarrow> nat list \<Rightarrow> 'x gameEvent list
     \<Rightarrow> 'x gameEvent list" where
  "contingentLoop defeat g event [] contingentEvents = contingentEvents"
| "contingentLoop defeat g event (upgrade # rest) contingentEvents =
     (if isArena (Location (location (cards g upgrade)))
      then (let attachmentEvent =
                  generateEvent defeat g (Card upgrade) (frameworkContext g) noProperties;
                attachmentEvent' =
                  attachmentEvent
                    \<lparr>order := order event - 1,
                     isContingent := True,
                     condition :=
                       ContingentCondition (condition attachmentEvent) upgrade (eventCard event)\<rparr>
            in contingentLoop defeat g event rest (contingentEvents @ [attachmentEvent']))
      else contingentLoop defeat g event rest contingentEvents)"

definition createContingentEvents ::
  "'x gameSystem \<Rightarrow> 'x game \<Rightarrow> 'x gameEvent \<Rightarrow> error + 'x gameEvent list" where
  "createContingentEvents defeat g event =
     (case eventCard event of
        None \<Rightarrow> Inl TypeError
      | Some (Player p) \<Rightarrow> Inr []
      | Some (Card c) \<Rightarrow>
          Inr (contingentLoop defeat g event
                 (case upgrades (cards g c) of None \<Rightarrow> [] | Some us \<Rightarrow> us) []))"


subsection \<open>Moving a card between piles (Player.js)\<close>

text \<open>
  The store of the arrays of cards: a new array is appended, an array is read and
  replaced at its reference.
\<close>

definition newArray :: "'x game \<Rightarrow> nat list \<Rightarrow> ref \<times> 'x game" where
  "newArray g xs = (length (arrays g), g\<lparr>arrays := arrays g @ [xs]\<rparr>)"

definition arrayAt :: "'x game \<Rightarrow> ref \<Rightarrow> nat list" where
  "arrayAt g r = (if r < length (arrays g) then arrays g ! r else [])"

definition arrayPut :: "'x game \<Rightarrow> ref \<Rightarrow> nat list \<Rightarrow> 'x game" where
  "arrayPut g r xs = (if r < length (arrays g) then g\<lparr>arrays := (arrays g)[r := xs]\<rparr> else g)"

text \<open>
  \<^verbatim>\<open>getCardPile\<close>: the pile of a location, \<open>None\<close> for \<^verbatim>\<open>undefined\<close>. A name that is
  none of the nine locations and not the empty string names an additional pile, which
  is created when it is missing.
\<close>

definition createAdditionalPile :: "nat \<Rightarrow> location \<Rightarrow> 'x game \<Rightarrow> 'x game" where
  "createAdditionalPile p name' g =
     (let (r, g1) = newArray g []
      in g1\<lparr>players := (players g1)
              (p := (players g1 p)\<lparr>additionalPiles := (additionalPiles (players g1 p))(name' \<mapsto> r)\<rparr>)\<rparr>)"

definition getCardPile :: "nat \<Rightarrow> location \<Rightarrow> 'x game \<Rightarrow> ref option \<times> 'x game" where
  "getCardPile p source' g =
     (case source' of
        Location_Hand \<Rightarrow> (Some (hand (players g p)), g)
      | Location_Deck \<Rightarrow> (Some (drawDeck (players g p)), g)
      | Location_Discard \<Rightarrow> (Some (discard (players g p)), g)
      | Location_Resource \<Rightarrow> (Some (resources (players g p)), g)
      | Location_RemovedFromGame \<Rightarrow> (Some (removedFromGame (players g p)), g)
      | Location_SpaceArena \<Rightarrow> (Some (spaceArena (players g p)), g)
      | Location_GroundArena \<Rightarrow> (Some (groundArena (players g p)), g)
      | Location_Base \<Rightarrow> (Some (baseZone (players g p)), g)
      | Location_Leader \<Rightarrow> (Some (leaderZone (players g p)), g)
      | Location_Other s \<Rightarrow>
          (if s \<noteq> []
           then (let g1 = (if additionalPiles (players g p) source' = None
                           then createAdditionalPile p source' g else g)
                 in (additionalPiles (players g1 p) source', g1))
           else (None, g)))"

text \<open>\<^verbatim>\<open>removeCardByUuid\<close>.\<close>

definition removeCardByUuid :: "'x game \<Rightarrow> nat list \<Rightarrow> string \<Rightarrow> nat list" where
  "removeCardByUuid g list uuid' = filter (\<lambda>crd. uuid (cards g crd) \<noteq> uuid') list"

text \<open>
  \<^verbatim>\<open>removeCardFromPile\<close>. A player who is not the controller of the card hands the call
  to the controller. The filtered pile is a new array, assigned to the field of the
  pile for seven of the locations. In the default branch the code looks up the
  additional piles under the array itself, converted to a string: it is taken to name
  no pile, so nothing is assigned there.
\<close>

definition removeCardFromPile :: "nat \<Rightarrow> nat \<Rightarrow> 'x game \<Rightarrow> 'x game" where
  "removeCardFromPile p crd g =
     (let this = (if controller (cards g crd) \<noteq> p then controller (cards g crd) else p);
          originalLocation = location (cards g crd);
          (originalPile, g1) = getCardPile this originalLocation g
      in case originalPile of
           None \<Rightarrow> g1
         | Some r \<Rightarrow>
             (let (updatedPile, g2) =
                    newArray g1 (removeCardByUuid g1 (arrayAt g1 r) (uuid (cards g1 crd)));
                  pl = players g2 this
              in case originalLocation of
                   Location_SpaceArena \<Rightarrow>
                     g2\<lparr>players := (players g2)(this := pl\<lparr>spaceArena := updatedPile\<rparr>)\<rparr>
                 | Location_GroundArena \<Rightarrow>
                     g2\<lparr>players := (players g2)(this := pl\<lparr>groundArena := updatedPile\<rparr>)\<rparr>
                 | Location_Hand \<Rightarrow>
                     g2\<lparr>players := (players g2)(this := pl\<lparr>hand := updatedPile\<rparr>)\<rparr>
                 | Location_Deck \<Rightarrow>
                     g2\<lparr>players := (players g2)(this := pl\<lparr>drawDeck := updatedPile\<rparr>)\<rparr>
                 | Location_Discard \<Rightarrow>
                     g2\<lparr>players := (players g2)(this := pl\<lparr>discard := updatedPile\<rparr>)\<rparr>
                 | Location_RemovedFromGame \<Rightarrow>
                     g2\<lparr>players := (players g2)(this := pl\<lparr>removedFromGame := updatedPile\<rparr>)\<rparr>
                 | Location_Leader \<Rightarrow>
                     g2\<lparr>players := (players g2)(this := pl\<lparr>leaderZone := updatedPile\<rparr>)\<rparr>
                 | _ \<Rightarrow> g2))"

text \<open>
  \<^verbatim>\<open>String.prototype.endsWith\<close>, and \<^verbatim>\<open>String.prototype.replace\<close> of the first
  occurrence of a pattern by the empty string.
\<close>

definition endsWith :: "string \<Rightarrow> string \<Rightarrow> bool" where
  "endsWith s suffix' =
     (length suffix' \<le> length s \<and> drop (length s - length suffix') s = suffix')"

fun removeFirst :: "string \<Rightarrow> string \<Rightarrow> string" where
  "removeFirst pattern [] = []"
| "removeFirst pattern (x # xs) =
     (if take (length pattern) (x # xs) = pattern then drop (length pattern) (x # xs)
      else x # removeFirst pattern xs)"

text \<open>
  A target location that ends with \<^verbatim>\<open>' bottom'\<close>. The values of the enumeration
  \<^verbatim>\<open>Location\<close> are in Constants, which is not among the source files: they are taken
  not to end with \<^verbatim>\<open>' bottom'\<close>, and \<open>locationNamed\<close> gives the location a string is.
\<close>

definition endsWithBottom :: "location \<Rightarrow> bool" where
  "endsWithBottom targetLocation =
     (case targetLocation of Location_Other s \<Rightarrow> endsWith s '' bottom'' | _ \<Rightarrow> False)"

definition withoutBottom :: "(string \<Rightarrow> location) \<Rightarrow> location \<Rightarrow> location" where
  "withoutBottom locationNamed targetLocation =
     (case targetLocation of
        Location_Other s \<Rightarrow> locationNamed (removeFirst '' bottom'' s)
      | _ \<Rightarrow> targetLocation)"

text \<open>
  The end of \<^verbatim>\<open>moveCard\<close>: the card is put on top of the deck, the discard pile and
  the pile of the cards removed from the game, at the bottom of any other pile, and
  \<^verbatim>\<open>card.moveTo\<close> runs. The methods of the card are not among the source files:
  \<^verbatim>\<open>moveTo\<close> is what the comment of \<^verbatim>\<open>moveCard\<close> says of it, it changes the location
  property of the card.
\<close>

definition addToPile :: "location \<Rightarrow> bool \<Rightarrow> ref option \<Rightarrow> nat \<Rightarrow> 'x game \<Rightarrow> 'x game" where
  "addToPile targetLocation bottom targetPile crd g =
     (case targetPile of
        None \<Rightarrow> g
      | Some r \<Rightarrow>
          (if targetLocation = Location_Deck \<and> \<not> bottom then arrayPut g r (crd # arrayAt g r)
           else if targetLocation = Location_Discard \<or> targetLocation = Location_RemovedFromGame
           then arrayPut g r (crd # arrayAt g r)
           else arrayPut g r (arrayAt g r @ [crd])))"

definition moveTo :: "nat \<Rightarrow> location \<Rightarrow> 'x game \<Rightarrow> 'x game" where
  "moveTo crd targetLocation g =
     g\<lparr>cards := (cards g)(crd := (cards g crd)\<lparr>location := targetLocation\<rparr>)\<rparr>"

definition setController :: "nat \<Rightarrow> nat \<Rightarrow> 'x game \<Rightarrow> 'x game" where
  "setController crd p g = g\<lparr>cards := (cards g)(crd := (cards g crd)\<lparr>controller := p\<rparr>)\<rparr>"

definition setDefaultController :: "nat \<Rightarrow> nat \<Rightarrow> 'x game \<Rightarrow> 'x game" where
  "setDefaultController crd p g =
     g\<lparr>cards := (cards g)(crd := (cards g crd)\<lparr>defaultController := Some p\<rparr>)\<rparr>"

text \<open>
  A loop whose body may fail: the first failure ends it. \<open>None\<close> is a body that did
  not return.
\<close>

fun forEach ::
  "('a \<Rightarrow> 'g \<Rightarrow> (error + 'g) option) \<Rightarrow> 'a list \<Rightarrow> 'g \<Rightarrow> (error + 'g) option" where
  "forEach body [] g = Some (Inr g)"
| "forEach body (x # xs) g =
     (case body x g of
        None \<Rightarrow> None
      | Some (Inl e) \<Rightarrow> Some (Inl e)
      | Some (Inr g1) \<Rightarrow> forEach body xs g1)"

text \<open>
  \<^verbatim>\<open>moveCard\<close>, called on the player \<open>p\<close>; \<open>bottom\<close> is the field of that name of the
  options. The card is first removed from its pile; the guard that follows fails the
  contract when the target location is not legal for the type of the card or the target
  pile holds the card already. The call reaches itself through the owner of a card in
  an arena and through the upgrades of a unit, each moved to the discard pile of its
  owner with options of its own; on cards that are their own upgrades this never ends,
  so the calls are counted: \<open>None\<close> is a call that needed more than \<open>fuel\<close> nested
  calls. \<open>targetPile\<close> is the array read before the upgrades are moved.
\<close>

fun moveCard ::
  "nat \<Rightarrow> (cardType \<Rightarrow> locationFilter list option) \<Rightarrow> (string \<Rightarrow> location) \<Rightarrow> nat \<Rightarrow> nat
     \<Rightarrow> location \<Rightarrow> bool \<Rightarrow> 'x game \<Rightarrow> (error + 'x game) option" where
  "moveCard 0 table locationNamed p crd targetLocation bottom g = None"
| "moveCard (Suc fuel) table locationNamed p crd targetLocation bottom g =
     (let g1 = removeCardFromPile p crd g;
          bottom1 = (if endsWithBottom targetLocation then True else bottom);
          targetLocation1 = (if endsWithBottom targetLocation
                             then withoutBottom locationNamed targetLocation
                             else targetLocation);
          (targetPile, g2) = getCardPile p targetLocation1 g1
      in if \<not> isLegalLocationForCardType table (players g2 p) (type (cards g2 crd)) targetLocation1 \<or>
            (case targetPile of None \<Rightarrow> False | Some r \<Rightarrow> crd \<in> set (arrayAt g2 r))
         then Some (Inl ContractFailure)
         else (let currentLocation = location (cards g2 crd)
               in if isArena (Location currentLocation)
                  then (if owner (cards g2 crd) \<noteq> p
                        then moveCard fuel table locationNamed (owner (cards g2 crd)) crd
                               targetLocation1 bottom1 g2
                        else (case (if cardIsUnit (cards g2 crd)
                                    then (case upgrades (cards g2 crd) of
                                            None \<Rightarrow> Some (Inl TypeError)
                                          | Some us \<Rightarrow>
                                              forEach
                                                (\<lambda>upgrade g'.
                                                   moveCard fuel table locationNamed
                                                     (owner (cards g' upgrade)) upgrade
                                                     Location_Discard False g')
                                                us g2)
                                    else Some (Inr g2)) of
                                None \<Rightarrow> None
                              | Some (Inl e) \<Rightarrow> Some (Inl e)
                              | Some (Inr g3) \<Rightarrow>
                                  Some (Inr (moveTo crd targetLocation1
                                               (addToPile targetLocation1 bottom1 targetPile crd
                                                  (setController crd p g3))))))
                  else if isArena (Location targetLocation1)
                  then Some (Inr (moveTo crd targetLocation1
                                    (addToPile targetLocation1 bottom1 targetPile crd
                                       (setController crd p (setDefaultController crd p g2)))))
                  else Some (Inr (moveTo crd targetLocation1
                                    (addToPile targetLocation1 bottom1 targetPile crd
                                       (setController crd (owner (cards g2 crd)) g2))))))"

text \<open>
  \<^verbatim>\<open>leavesPlayEventHandler\<close>. An event without a destination has \<^verbatim>\<open>undefined\<close> there,
  which is the key \<^verbatim>\<open>'undefined'\<close> of the additional piles and equals no location of a
  filter; \<^verbatim>\<open>moveCard\<close> given \<^verbatim>\<open>undefined\<close> throws when it reads \<^verbatim>\<open>endsWith\<close> of it.
  The options of the event go to \<^verbatim>\<open>moveCard\<close>, which sets their field \<^verbatim>\<open>bottom\<close> for
  a destination that ends with \<^verbatim>\<open>' bottom'\<close>; an event without options gets an empty
  object that is dropped after the call.
\<close>

definition isLegalDestination ::
  "(cardType \<Rightarrow> locationFilter list option) \<Rightarrow> player \<Rightarrow> cardType \<Rightarrow> location option \<Rightarrow> bool"
  where
  "isLegalDestination table p cardType d =
     (case d of
        Some l \<Rightarrow> isLegalLocationForCardType table p cardType l
      | None \<Rightarrow>
          (if additionalPiles p (Location_Other ''undefined'') \<noteq> None then True
           else (case table cardType of
                   None \<Rightarrow> False
                 | Some fs \<Rightarrow> some (\<lambda>f. f = WildcardLocation_Any) fs)))"

definition leavesPlayEventHandler ::
  "(cardType \<Rightarrow> locationFilter list option) \<Rightarrow> (string \<Rightarrow> location) \<Rightarrow> nat
     \<Rightarrow> eventData \<Rightarrow> properties \<Rightarrow> 'x game \<Rightarrow> (error + eventData \<times> 'x game) option" where
  "leavesPlayEventHandler table locationNamed fuel event additionalProperties g =
     (case eventCard event of
        Some (Card c) \<Rightarrow>
          (let ownr = owner (cards g c);
               legal = isLegalDestination table (players g ownr) (type (cards g c))
                         (eventDestination event);
               g1 = (if \<not> legal
                     then addMessage g ''{0} is not a legal location for {1} and it is discarded''
                            [case eventDestination event of
                               None \<Rightarrow> ArgUndefined | Some d \<Rightarrow> ArgLocation d,
                             ArgCard c]
                     else g);
               event1 = (if \<not> legal then event\<lparr>eventDestination := Some Location_Deck\<rparr>
                         else event)
           in (case eventDestination event1 of
                 None \<Rightarrow> Some (Inl TypeError)
               | Some d \<Rightarrow>
                   (case moveCard fuel table locationNamed (owner (cards g1 c)) c d
                           (eventOptions event1 = Some True) g1 of
                      None \<Rightarrow> None
                    | Some (Inl e) \<Rightarrow> Some (Inl e)
                    | Some (Inr g2) \<Rightarrow>
                        Some (Inr (event1\<lparr>eventOptions :=
                                            (if endsWithBottom d
                                             then map_option (\<lambda>b. True) (eventOptions event1)
                                             else eventOptions event1)\<rparr>, g2)))))
      | _ \<Rightarrow> Some (Inl TypeError))"
subsection \<open>Events for all targets (GameSystem, CardTargetSystem)\<close>

text \<open>The base class: one event for each candidate target the system can affect.\<close>

definition generateEventsForAllTargets ::
  "'x gameSystem \<Rightarrow> 'x game \<Rightarrow> nat \<Rightarrow> properties \<Rightarrow> 'x gameEvent list" where
  "generateEventsForAllTargets sys g context additionalProperties =
     map (\<lambda>t. generateEvent sys g t context additionalProperties)
       (filter (\<lambda>t. canAffect sys g t context additionalProperties)
          (targets sys g context additionalProperties))"

text \<open>
  An additional cost, one value of the effect \<^verbatim>\<open>UnlessActionCost\<close> of a card. Its
  \<^verbatim>\<open>cost\<close> is a system of a class that is not among the source files, or a function
  from the card to such a system: the three methods called on it are fields here, each
  given the card, the context and the state. \<open>costResolve\<close> is the call
  \<^verbatim>\<open>cost.resolve(card, context)\<close>: it returns the state after the call and the work the
  call queued, which runs when the step that made the call has returned.
\<close>

record 'x unlessActionCost =
  actionName :: string
  costHasLegalTarget :: "target \<Rightarrow> nat \<Rightarrow> 'x game \<Rightarrow> bool"
  costResolve :: "target \<Rightarrow> nat \<Rightarrow> 'x game \<Rightarrow> 'x game \<times> ('x game \<Rightarrow> 'x game)"
  costGetEffectMessage :: "target \<Rightarrow> nat \<Rightarrow> 'x game \<Rightarrow> messageArg"

text \<open>
  The steps \<^verbatim>\<open>generateEventsForAllTargets\<close> queues, named by their labels. Each closure
  captures the card and the variable \<^verbatim>\<open>allCostsPaid\<close> of its iteration of the loop: the
  number tells the iterations apart.
\<close>

datatype 'x step =
  ResolveCardTargetingCosts nat target "'x unlessActionCost"
  | PushCardTargetEventIfTargetingCostPaid nat target
  | QueuedByCost "'x game \<Rightarrow> 'x game"

text \<open>
  What the steps work on: the game, the variables \<^verbatim>\<open>allCostsPaid\<close>, one for each
  iteration, and the array \<^verbatim>\<open>events\<close> the function returned.
\<close>

record 'x targeting =
  game :: "'x game"
  allCostsPaid :: "nat \<Rightarrow> bool"
  events :: "'x gameEvent list"

definition controllerArg :: "'x game \<Rightarrow> target \<Rightarrow> messageArg" where
  "controllerArg g t = (case t of Card c \<Rightarrow> ArgPlayer (controller (cards g c)) | Player p \<Rightarrow> ArgUndefined)"

definition getEffectMessage ::
  "'x gameSystem \<Rightarrow> 'x game \<Rightarrow> nat \<Rightarrow> properties \<Rightarrow> messageArg" where
  "getEffectMessage sys g context additionalProperties =
     ArgEffect (effectDescription sys)
       (targetList (generatePropertiesFromContext sys g context additionalProperties))"

text \<open>
  The loop over the targets. \<open>getEffectValues\<close> is
  \<^verbatim>\<open>card.getEffectValues(EffectName.UnlessActionCost)\<close> in the state of the call. The
  block guarded by \<^verbatim>\<open>context.player && context.ability && ...\<close> holds only comments.
\<close>

fun targetLoop ::
  "('x game \<Rightarrow> target \<Rightarrow> 'x unlessActionCost list) \<Rightarrow> 'x gameSystem \<Rightarrow> 'x game \<Rightarrow> nat
     \<Rightarrow> properties \<Rightarrow> nat \<Rightarrow> target list \<Rightarrow> 'x gameEvent list \<Rightarrow> 'x step list
     \<Rightarrow> 'x gameEvent list \<times> 'x step list" where
  "targetLoop getEffectValues sys g context additionalProperties i [] events' steps =
     (events', steps)"
| "targetLoop getEffectValues sys g context additionalProperties i (crd # rest) events' steps =
     (let additionalCosts =
            filter (\<lambda>properties. actionName properties = systemName sys) (getEffectValues g crd)
      in if length additionalCosts > 0
         then targetLoop getEffectValues sys g context additionalProperties (Suc i) rest events'
                (steps @ map (ResolveCardTargetingCosts i crd) additionalCosts
                   @ [PushCardTargetEventIfTargetingCostPaid i crd])
         else targetLoop getEffectValues sys g context additionalProperties (Suc i) rest
                (events' @ [generateEvent sys g crd context additionalProperties]) steps)"

definition generateEventsForAllTargetsCard ::
  "('x game \<Rightarrow> target \<Rightarrow> 'x unlessActionCost list) \<Rightarrow> 'x gameSystem \<Rightarrow> 'x game \<Rightarrow> nat
     \<Rightarrow> properties \<Rightarrow> 'x gameEvent list \<times> 'x step list" where
  "generateEventsForAllTargetsCard getEffectValues sys g context additionalProperties =
     targetLoop getEffectValues sys g context additionalProperties 0
       (targetList (generatePropertiesFromContext sys g context additionalProperties)) [] []"

text \<open>One step: the state after it and the steps it queued.\<close>

fun execStep ::
  "'x gameSystem \<Rightarrow> nat \<Rightarrow> properties \<Rightarrow> 'x step \<Rightarrow> 'x targeting
     \<Rightarrow> 'x targeting \<times> 'x step list" where
  "execStep sys context additionalProperties (ResolveCardTargetingCosts i crd properties) r =
     (if costHasLegalTarget properties crd context (game r)
      then (let (g1, queued) = costResolve properties crd context (game r);
                g2 = addMessage g1 ''{0} {1} in order to {2}''
                       [controllerArg g1 crd, costGetEffectMessage properties crd context g1,
                        getEffectMessage sys g1 context additionalProperties]
            in (r\<lparr>game := g2\<rparr>, [QueuedByCost queued]))
      else (r\<lparr>allCostsPaid := (allCostsPaid r)(i := False),
               game := addMessage (game r) ''{0} cannot pay the additional cost required to {1}''
                         [controllerArg (game r) crd,
                          getEffectMessage sys (game r) context additionalProperties]\<rparr>,
            []))"
| "execStep sys context additionalProperties (PushCardTargetEventIfTargetingCostPaid i crd) r =
     (if allCostsPaid r i
      then (r\<lparr>events := events r @ [generateEvent sys (game r) crd context additionalProperties]\<rparr>,
            [])
      else (r, []))"
| "execStep sys context additionalProperties (QueuedByCost k) r = (r\<lparr>game := k (game r)\<rparr>, [])"

text \<open>
  Modelled from the spec: the pipeline is not among the source files. It runs the front
  step to completion; the steps that step queued come next, in the order they were
  queued, before the steps that were already waiting.
\<close>

fun weight :: "'x step \<Rightarrow> nat" where
  "weight (ResolveCardTargetingCosts i crd properties) = 2"
| "weight _ = 1"

lemma weight_execStep:
  "sum_list (map weight (snd (execStep sys context additionalProperties s r))) < weight s"
  by (cases s) (simp_all add: Let_def split: prod.splits)

function runSteps ::
  "'x gameSystem \<Rightarrow> nat \<Rightarrow> properties \<Rightarrow> 'x step list \<Rightarrow> 'x targeting \<Rightarrow> 'x targeting" where
  "runSteps sys context additionalProperties [] r = r"
| "runSteps sys context additionalProperties (s # ss) r =
     runSteps sys context additionalProperties
       (snd (execStep sys context additionalProperties s r) @ ss)
       (fst (execStep sys context additionalProperties s r))"
  by pat_completeness auto
termination
  by (relation "measure (\<lambda>(sys, c, ps, ss, r). sum_list (map weight ss))")
    (simp_all add: weight_execStep)

text \<open>
  The call of \<^verbatim>\<open>generateEventsForAllTargets\<close> in the state \<open>g\<close> followed by the steps
  it queued, up to the point where the event window for the returned array would open.
\<close>

definition eventsForAllTargets ::
  "('x game \<Rightarrow> target \<Rightarrow> 'x unlessActionCost list) \<Rightarrow> 'x gameSystem \<Rightarrow> 'x game \<Rightarrow> nat
     \<Rightarrow> properties \<Rightarrow> 'x targeting" where
  "eventsForAllTargets getEffectValues sys g context additionalProperties =
     (let (events0, steps) =
            generateEventsForAllTargetsCard getEffectValues sys g context additionalProperties
      in runSteps sys context additionalProperties steps
           \<lparr>game = g, allCostsPaid = (\<lambda>i. True), events = events0\<rparr>)"

section \<open>The ability resolver (AbilityResolver.js)\<close>

subsection \<open>The state of a resolution\<close>

text \<open>
  The ability is an object of a class that is not among the source files; what the
  resolver reads of it without a call are these fields.
\<close>

record abilityDef =
  abilityOptional :: bool
  cannotTargetFirst :: bool
  isCardAbility :: bool
  isCardPlayed :: bool
  isActivatedAbility :: bool
  abilityTypeIsEvent :: bool
  hasLimit :: bool

text \<open>
  \<^verbatim>\<open>targetResults\<close> starts as the empty object, whose fields read as false. The events
  of \<^verbatim>\<open>costResults\<close> are kept as the cancelled flags of their resolution events.
\<close>

record targetResults =
  targetsCancelled :: bool
  delayTargeting :: bool
  payCostsFirst :: bool

record costResults =
  costsCancelled :: bool
  costsCanCancel :: bool
  costEvents :: "bool list"
  playCosts :: bool
  triggerCosts :: bool

record passAbilityHandler =
  buttonText :: string
  arg :: string
  hasBeenShown :: bool

text \<open>
  The fields of the resolver, and counters for what it does to the world outside:
  \<open>promptsShown\<close> counts the calls of \<^verbatim>\<open>promptWithHandlerMenu\<close>, \<open>handlerCalls\<close> the
  calls of \<^verbatim>\<open>ability.executeHandler\<close>, \<open>limitIncrements\<close> those of
  \<^verbatim>\<open>limit.increment\<close>, \<open>messagesDisplayed\<close> those of \<^verbatim>\<open>ability.displayMessage\<close>,
  \<open>movesToDiscard\<close> the moves of an event card to the discard pile; \<open>chat\<close> is the
  log of \<^verbatim>\<open>game.addMessage\<close>.
\<close>

record 'x resolver =
  ability :: abilityDef
  contextStage :: "stage option"
  canCancel :: bool
  initiateAbility :: bool
  passPriority :: bool
  resolverEvents :: "'x gameEvent list"
  targetResultsOf :: targetResults
  costResultsOf :: costResults
  resolverCancelled :: bool
  passAbilityHandlerOf :: "passAbilityHandler option"
  promptsShown :: nat
  handlerCalls :: nat
  limitIncrements :: nat
  messagesDisplayed :: nat
  movesToDiscard :: nat
  chat :: "string list"

text \<open>
  What a targeting call of the ability answers. The call is given the context and the
  pass handler, an object it can write: besides the target results, the answer holds
  the pass handler as the call left it, as a function of the handler it was given, and
  tells whether the player chose the pass button while targeting, which runs the
  closure \<^verbatim>\<open>handler\<close> of the pass handler.
\<close>

record targetingAnswer =
  answerResults :: targetResults
  handlerAfter :: "passAbilityHandler \<Rightarrow> passAbilityHandler"
  passChosen :: bool

text \<open>
  What the code outside the source files answers when the resolver calls it; each answer
  may depend on the whole state of the resolution at the call. \<open>costWindow\<close> gives the
  cancelled flags of the cost events after their window, \<open>promptChoice\<close> is true when
  the player answers Pass, \<open>initiateWindow\<close> and \<open>thenWindow\<close> tell whether the window
  runs the handler of the event it was opened for.
\<close>

record 'x environment =
  resolveTargets :: "'x resolver \<Rightarrow> targetingAnswer"
  resolveRemainingTargets :: "'x resolver \<Rightarrow> targetingAnswer"
  resolveCosts :: "'x resolver \<Rightarrow> costResults"
  costWindow :: "'x resolver \<Rightarrow> bool list"
  hasLegalTargets :: "'x resolver \<Rightarrow> bool"
  checkAllTargets :: "'x resolver \<Rightarrow> bool"
  promptChoice :: "'x resolver \<Rightarrow> bool"
  initiateWindow :: "'x resolver \<Rightarrow> bool"
  thenWindow :: "'x resolver \<Rightarrow> bool"
  sourceLocation :: "'x resolver \<Rightarrow> location"
  cardStateWhenInitiated :: "'x resolver \<Rightarrow> location option"

definition getCostResults :: "bool \<Rightarrow> costResults" where
  "getCostResults canCancel' =
     \<lparr>costsCancelled = False, costsCanCancel = canCancel', costEvents = [], playCosts = True,
      triggerCosts = True\<rparr>"

text \<open>
  The constructor. \<^verbatim>\<open>this.cancelled\<close> is not assigned and reads as false. The closure
  \<^verbatim>\<open>handler\<close> of the pass handler is the function \<open>passHandler\<close>.
\<close>

definition AbilityResolver_new :: "abilityDef \<Rightarrow> 'x resolver" where
  "AbilityResolver_new ab =
     \<lparr>ability = ab, contextStage = None, canCancel = True, initiateAbility = False,
      passPriority = False, resolverEvents = [],
      targetResultsOf = \<lparr>targetsCancelled = False, delayTargeting = False, payCostsFirst = False\<rparr>,
      costResultsOf = getCostResults True, resolverCancelled = False,
      passAbilityHandlerOf =
        (if abilityOptional ab
         then Some \<lparr>buttonText = ''Pass ability'', arg = ''passAbility'', hasBeenShown = False\<rparr>
         else None),
      promptsShown = 0, handlerCalls = 0, limitIncrements = 0, messagesDisplayed = 0,
      movesToDiscard = 0, chat = []\<rparr>"

definition passHandler :: "'x resolver \<Rightarrow> 'x resolver" where
  "passHandler r = r\<lparr>resolverCancelled := True, passPriority := True\<rparr>"

subsection \<open>The steps\<close>

text \<open>
  The steps of the resolver by their labels, the windows it opens, and the prompt of
  \<^verbatim>\<open>checkForPass\<close>.
\<close>

datatype resolverStep =
  ResolveEarlyTargets | CheckForCancelOrPass | OpenInitiateAbilityEventWindow
  | InitiateAbilityEventWindow
  | ResolveCosts | PayCosts | CostEventWindow | CheckCostsWerePaid | ResolveTargets
  | CheckForPass | HandlerMenuPrompt
  | InitiateAbilityEffects | ThenEventWindow | ExecuteHandler

definition initialise :: "resolverStep list" where
  "initialise = [ResolveEarlyTargets, CheckForCancelOrPass, OpenInitiateAbilityEventWindow]"

definition queueInitiateAbilitySteps :: "resolverStep list" where
  "queueInitiateAbilitySteps =
     [ResolveCosts, PayCosts, CheckCostsWerePaid, ResolveTargets, CheckForCancelOrPass,
      InitiateAbilityEffects, ExecuteHandler]"

text \<open>
  A call that is given the pass handler: the handler is as the call left it, the closure
  of the handler has run if there is a handler and the player chose the pass button, and
  the results are stored.
\<close>

definition targeting :: "'x resolver \<Rightarrow> targetingAnswer \<Rightarrow> 'x resolver" where
  "targeting r answer =
     (let r1 = r\<lparr>passAbilityHandlerOf := map_option (handlerAfter answer) (passAbilityHandlerOf r)\<rparr>;
          r2 = (if passAbilityHandlerOf r \<noteq> None \<and> passChosen answer then passHandler r1 else r1)
      in r2\<lparr>targetResultsOf := answerResults answer\<rparr>)"

definition resolveEarlyTargets :: "'x environment \<Rightarrow> 'x resolver \<Rightarrow> 'x resolver \<times> resolverStep list"
  where
  "resolveEarlyTargets env r =
     (let r1 = r\<lparr>contextStage := Some Stage_PreTarget\<rparr>
      in if \<not> cannotTargetFirst (ability r1)
         then (targeting r1 (resolveTargets env r1), [])
         else (r1, []))"

definition checkForCancelOrPass :: "'x resolver \<Rightarrow> 'x resolver \<times> resolverStep list" where
  "checkForCancelOrPass r =
     (if resolverCancelled r then (r, [])
      else (case passAbilityHandlerOf r of
              Some h \<Rightarrow>
                (if \<not> hasBeenShown h then (r, [CheckForPass])
                 else (r\<lparr>resolverCancelled := targetsCancelled (targetResultsOf r)\<rparr>, []))
            | None \<Rightarrow> (r\<lparr>resolverCancelled := targetsCancelled (targetResultsOf r)\<rparr>, [])))"

definition EventName_OnAbilityResolverInitiated :: string where
  "EventName_OnAbilityResolverInitiated = ''onAbilityResolverInitiated''"

definition EventName_OnCardAbilityInitiated :: string where
  "EventName_OnCardAbilityInitiated = ''onCardAbilityInitiated''"

definition EventName_OnCardPlayed :: string where
  "EventName_OnCardPlayed = ''onCardPlayed''"

definition EventName_OnCardAbilityTriggered :: string where
  "EventName_OnCardAbilityTriggered = ''onCardAbilityTriggered''"

text \<open>
  The handler of the last event pushed is \<^verbatim>\<open>queueInitiateAbilitySteps\<close>; it runs when
  the window, the step \<open>InitiateAbilityEventWindow\<close>, resolves that event.
\<close>

definition openInitiateAbilityEventWindow ::
  "'x resolver \<Rightarrow> 'x resolver \<times> resolverStep list" where
  "openInitiateAbilityEventWindow r =
     (if resolverCancelled r then (r, [])
      else (let eventName' =
                  (if isCardAbility (ability r) then EventName_OnCardAbilityInitiated
                   else EventName_OnAbilityResolverInitiated);
                played =
                  (if isCardAbility (ability r) \<and> isCardPlayed (ability r)
                   then [GameEvent_new EventName_OnCardPlayed False] else []);
                triggered =
                  (if isCardAbility (ability r) \<and> isActivatedAbility (ability r)
                   then [GameEvent_new EventName_OnCardAbilityTriggered False] else [])
            in (r\<lparr>resolverEvents :=
                     resolverEvents r @ played @ triggered @ [GameEvent_new eventName' False]\<rparr>,
                [InitiateAbilityEventWindow])))"

definition initiateAbilityEventWindow ::
  "'x environment \<Rightarrow> 'x resolver \<Rightarrow> 'x resolver \<times> resolverStep list" where
  "initiateAbilityEventWindow env r =
     (if initiateWindow env r then (r, queueInitiateAbilitySteps) else (r, []))"

definition resolveCostsStep ::
  "'x environment \<Rightarrow> 'x resolver \<Rightarrow> 'x resolver \<times> resolverStep list" where
  "resolveCostsStep env r =
     (if resolverCancelled r then (r, [])
      else (let r1 = r\<lparr>costResultsOf := (costResultsOf r)\<lparr>costsCanCancel := canCancel r\<rparr>,
                       contextStage := Some Stage_Cost\<rparr>
            in (r1\<lparr>costResultsOf := resolveCosts env r1\<rparr>, [])))"

definition checkForPass :: "'x resolver \<Rightarrow> 'x resolver \<times> resolverStep list" where
  "checkForPass r =
     (if resolverCancelled r then (r, [])
      else if costsCancelled (costResultsOf r) then (r\<lparr>resolverCancelled := True\<rparr>, [])
      else (case passAbilityHandlerOf r of
              Some h \<Rightarrow>
                (if \<not> hasBeenShown h
                 then (r\<lparr>passAbilityHandlerOf := Some (h\<lparr>hasBeenShown := True\<rparr>),
                         promptsShown := promptsShown r + 1\<rparr>,
                       [HandlerMenuPrompt])
                 else (r, []))
            | None \<Rightarrow> (r, [])))"

text \<open>The two handlers of the prompt: Trigger does nothing, Pass runs the pass handler.\<close>

definition handlerMenuPrompt ::
  "'x environment \<Rightarrow> 'x resolver \<Rightarrow> 'x resolver \<times> resolverStep list" where
  "handlerMenuPrompt env r = (if promptChoice env r then (passHandler r, []) else (r, []))"

definition payCosts :: "'x resolver \<Rightarrow> 'x resolver \<times> resolverStep list" where
  "payCosts r =
     (if resolverCancelled r then (r, [])
      else if costsCancelled (costResultsOf r) then (r\<lparr>resolverCancelled := True\<rparr>, [])
      else (r\<lparr>passPriority := True\<rparr>,
            if length (costEvents (costResultsOf r)) > 0 then [CostEventWindow] else []))"

definition costEventWindow ::
  "'x environment \<Rightarrow> 'x resolver \<Rightarrow> 'x resolver \<times> resolverStep list" where
  "costEventWindow env r =
     (r\<lparr>costResultsOf := (costResultsOf r)\<lparr>costEvents := costWindow env r\<rparr>\<rparr>, [])"

definition checkCostsWerePaid :: "'x resolver \<Rightarrow> 'x resolver \<times> resolverStep list" where
  "checkCostsWerePaid r =
     (if resolverCancelled r then (r, [])
      else (let c = some (\<lambda>eventCancelled. eventCancelled) (costEvents (costResultsOf r));
                r1 = r\<lparr>resolverCancelled := c\<rparr>
            in if c
               then (r1\<lparr>chat := chat r1 @
                       [''{0} attempted to use {1}, but did not successfully pay the required costs'']\<rparr>,
                     [])
               else (r1, [])))"

definition resolveTargetsStep ::
  "'x environment \<Rightarrow> 'x resolver \<Rightarrow> 'x resolver \<times> resolverStep list" where
  "resolveTargetsStep env r =
     (if resolverCancelled r then (r, [])
      else (let r1 = r\<lparr>contextStage := Some Stage_Target\<rparr>
            in if \<not> hasLegalTargets env r1
               then (r1\<lparr>chat := chat r1 @
                       [''{0} attempted to use {1}, but there are insufficient legal targets''],
                        resolverCancelled := True\<rparr>, [])
               else if delayTargeting (targetResultsOf r1)
               then (targeting r1 (resolveRemainingTargets env r1), [])
               else if payCostsFirst (targetResultsOf r1) \<or> \<not> checkAllTargets env r1
               then (targeting r1 (resolveTargets env r1), [])
               else (r1, [])))"

definition initiateAbilityEffects ::
  "'x environment \<Rightarrow> 'x resolver \<Rightarrow> 'x resolver \<times> resolverStep list" where
  "initiateAbilityEffects env r =
     (if resolverCancelled r
      then (r\<lparr>resolverEvents := map cancel (resolverEvents r)\<rparr>, [])
      else (let r1 =
                  (if hasLimit (ability r) \<and> sourceLocation env r \<noteq> Location_Hand \<and>
                      (case cardStateWhenInitiated env r of
                         None \<Rightarrow> True
                       | Some l \<Rightarrow> l = sourceLocation env r)
                   then r\<lparr>limitIncrements := limitIncrements r + 1\<rparr> else r);
                r2 = r1\<lparr>messagesDisplayed := messagesDisplayed r1 + 1\<rparr>
            in if isActivatedAbility (ability r2)
               then ((if abilityTypeIsEvent (ability r2)
                      then r2\<lparr>movesToDiscard := movesToDiscard r2 + 1\<rparr> else r2),
                     [ThenEventWindow])
               else (r2\<lparr>initiateAbility := True\<rparr>, [])))"

definition thenEventWindow ::
  "'x environment \<Rightarrow> 'x resolver \<Rightarrow> 'x resolver \<times> resolverStep list" where
  "thenEventWindow env r =
     (if thenWindow env r then (r\<lparr>initiateAbility := True\<rparr>, []) else (r, []))"

definition executeHandler :: "'x resolver \<Rightarrow> 'x resolver \<times> resolverStep list" where
  "executeHandler r =
     (if resolverCancelled r \<or> \<not> initiateAbility r then (r, [])
      else (r\<lparr>contextStage := Some Stage_EffectTmp, handlerCalls := handlerCalls r + 1\<rparr>, []))"

fun execute :: "'x environment \<Rightarrow> resolverStep \<Rightarrow> 'x resolver \<Rightarrow> 'x resolver \<times> resolverStep list"
  where
  "execute env ResolveEarlyTargets r = resolveEarlyTargets env r"
| "execute env CheckForCancelOrPass r = checkForCancelOrPass r"
| "execute env OpenInitiateAbilityEventWindow r = openInitiateAbilityEventWindow r"
| "execute env InitiateAbilityEventWindow r = initiateAbilityEventWindow env r"
| "execute env ResolveCosts r = resolveCostsStep env r"
| "execute env PayCosts r = payCosts r"
| "execute env CostEventWindow r = costEventWindow env r"
| "execute env CheckCostsWerePaid r = checkCostsWerePaid r"
| "execute env ResolveTargets r = resolveTargetsStep env r"
| "execute env CheckForPass r = checkForPass r"
| "execute env HandlerMenuPrompt r = handlerMenuPrompt env r"
| "execute env InitiateAbilityEffects r = initiateAbilityEffects env r"
| "execute env ThenEventWindow r = thenEventWindow env r"
| "execute env ExecuteHandler r = executeHandler r"

text \<open>
  Modelled from the spec: the pipeline is not among the source files. It runs the front
  step to completion; the steps that step queued come next, in the order they were
  queued, before the steps that were already waiting.
\<close>

fun stepWeight :: "resolverStep \<Rightarrow> nat" where
  "stepWeight CheckForPass = 2"
| "stepWeight CheckForCancelOrPass = 3"
| "stepWeight PayCosts = 2"
| "stepWeight InitiateAbilityEffects = 2"
| "stepWeight InitiateAbilityEventWindow = 12"
| "stepWeight OpenInitiateAbilityEventWindow = 13"
| "stepWeight _ = 1"

lemma stepWeight_execute:
  "sum_list (map stepWeight (snd (execute env s r))) < stepWeight s"
  by (cases s)
    (simp_all add: resolveEarlyTargets_def checkForCancelOrPass_def
      openInitiateAbilityEventWindow_def initiateAbilityEventWindow_def resolveCostsStep_def
      payCosts_def costEventWindow_def checkCostsWerePaid_def resolveTargetsStep_def
      checkForPass_def handlerMenuPrompt_def initiateAbilityEffects_def thenEventWindow_def
      executeHandler_def queueInitiateAbilitySteps_def Let_def split: option.splits)

function runPipeline ::
  "'x environment \<Rightarrow> resolverStep list \<Rightarrow> 'x resolver \<Rightarrow> 'x resolver" where
  "runPipeline env [] r = r"
| "runPipeline env (s # ss) r =
     runPipeline env (snd (execute env s r) @ ss) (fst (execute env s r))"
  by pat_completeness auto
termination
  by (relation "measure (\<lambda>(env, ss, r). sum_list (map stepWeight ss))")
    (simp_all add: stepWeight_execute)

text \<open>One resolution: the resolver is constructed and its pipeline runs until it is empty.\<close>

definition resolveAbility :: "'x environment \<Rightarrow> abilityDef \<Rightarrow> 'x resolver" where
  "resolveAbility env ab = runPipeline env initialise (AbilityResolver_new ab)"

subsection \<open>Quantities used to state the properties of the systems\<close>

text \<open>
  The value of \<^verbatim>\<open>cannotBeCancelled\<close> once the properties are composed: the system's own
  properties (or what its factory returns) decide, then the additional properties, then
  the default, which is false.
\<close>

definition resolvedCannotBeCancelled :: "'x gameSystem \<Rightarrow> 'x game \<Rightarrow> nat \<Rightarrow> properties \<Rightarrow> bool" where
  "resolvedCannotBeCancelled sys g context additionalProperties =
     (let own = (case propertiesOrFactory sys of
                   Undefined \<Rightarrow> None
                 | Properties ps \<Rightarrow> cannotBeCancelled ps
                 | PropertyFactory f \<Rightarrow> cannotBeCancelled (f g context))
      in case own of
           Some b \<Rightarrow> b
         | None \<Rightarrow> (case cannotBeCancelled additionalProperties of Some b \<Rightarrow> b | None \<Rightarrow> False))"

text \<open>The upgrades of a card that are in an arena.\<close>

definition arenaUpgrades :: "'x game \<Rightarrow> nat \<Rightarrow> nat list" where
  "arenaUpgrades g c =
     filter (\<lambda>u. isArena (Location (location (cards g u))))
       (case upgrades (cards g c) of None \<Rightarrow> [] | Some us \<Rightarrow> us)"

text \<open>
  The additional costs of a target that name the system, and the steps one iteration of
  the loop queues for a target that has some.
\<close>

definition additionalCostsOf ::
  "('x game \<Rightarrow> target \<Rightarrow> 'x unlessActionCost list) \<Rightarrow> 'x gameSystem \<Rightarrow> 'x game \<Rightarrow> target
     \<Rightarrow> 'x unlessActionCost list" where
  "additionalCostsOf getEffectValues sys g t =
     filter (\<lambda>properties. actionName properties = systemName sys) (getEffectValues g t)"

definition cardSteps :: "nat \<Rightarrow> target \<Rightarrow> 'x unlessActionCost list \<Rightarrow> 'x step list" where
  "cardSteps i t cs =
     (if cs = [] then []
      else map (ResolveCardTargetingCosts i t) cs @ [PushCardTargetEventIfTargetingCostPaid i t])"

text \<open>
  The additional costs of one target, taken one card at a time: each cost in turn is
  checked with \<^verbatim>\<open>hasLegalTarget\<close> in the state the costs before it left and, when the
  check succeeds, paid with \<^verbatim>\<open>resolve\<close>; a cost that comes after one that could not be
  paid is still checked and paid. The result says whether every check succeeded, and
  gives the state after the last cost.
\<close>

fun payAdditionalCosts ::
  "'x gameSystem \<Rightarrow> nat \<Rightarrow> properties \<Rightarrow> target \<Rightarrow> 'x unlessActionCost list \<Rightarrow> 'x game
     \<Rightarrow> bool \<times> 'x game" where
  "payAdditionalCosts sys context additionalProperties crd [] g = (True, g)"
| "payAdditionalCosts sys context additionalProperties crd (properties # rest) g =
     (if costHasLegalTarget properties crd context g
      then (case costResolve properties crd context g of
              (g1, queued) \<Rightarrow>
                payAdditionalCosts sys context additionalProperties crd rest
                  (queued (addMessage g1 ''{0} {1} in order to {2}''
                             [controllerArg g1 crd, costGetEffectMessage properties crd context g1,
                              getEffectMessage sys g1 context additionalProperties])))
      else (False,
            snd (payAdditionalCosts sys context additionalProperties crd rest
                   (addMessage g ''{0} cannot pay the additional cost required to {1}''
                      [controllerArg g crd,
                       getEffectMessage sys g context additionalProperties]))))"

text \<open>
  The targets that have additional costs, one after the other in the order of the target
  list: the costs of a target are checked and paid in the state the targets before it
  left, and its event is generated, in the state its own costs left, when every one of
  its own checks succeeded. \<open>costsOf\<close> gives the additional costs of a target.
\<close>

fun eventsOfTargets ::
  "(target \<Rightarrow> 'x unlessActionCost list) \<Rightarrow> 'x gameSystem \<Rightarrow> nat \<Rightarrow> properties \<Rightarrow> target list
     \<Rightarrow> 'x game \<Rightarrow> 'x gameEvent list \<times> 'x game" where
  "eventsOfTargets costsOf sys context additionalProperties [] g = ([], g)"
| "eventsOfTargets costsOf sys context additionalProperties (crd # rest) g =
     (if costsOf crd = [] then eventsOfTargets costsOf sys context additionalProperties rest g
      else (case payAdditionalCosts sys context additionalProperties crd (costsOf crd) g of
              (paid, g1) \<Rightarrow>
                (case eventsOfTargets costsOf sys context additionalProperties rest g1 of
                   (evs, g2) \<Rightarrow>
                     ((if paid then [generateEvent sys g1 crd context additionalProperties] else [])
                        @ evs, g2))))"

text \<open>
  The pass prompt has been shown, as the flag \<^verbatim>\<open>hasBeenShown\<close> tells it. The targeting
  calls of an environment keep the flag when they never clear it. The relation between
  the count of the prompts and the flag that every step then keeps: at most one prompt,
  and the flag is set once there was one.
\<close>

definition promptShown :: "'x resolver \<Rightarrow> bool" where
  "promptShown r = (case passAbilityHandlerOf r of None \<Rightarrow> False | Some h \<Rightarrow> hasBeenShown h)"

definition keepsShown :: "'x environment \<Rightarrow> bool" where
  "keepsShown env =
     (\<forall>r h. hasBeenShown h \<longrightarrow>
        hasBeenShown (handlerAfter (resolveTargets env r) h) \<and>
        hasBeenShown (handlerAfter (resolveRemainingTargets env r) h))"

definition promptInvariant :: "'x resolver \<Rightarrow> bool" where
  "promptInvariant r = (promptsShown r \<le> 1 \<and> (promptsShown r = 1 \<longrightarrow> promptShown r))"

text \<open>
  The steps that neither open the initiation window nor are one of the last two steps of a
  resolution.
\<close>

definition quiet :: "resolverStep \<Rightarrow> bool" where
  "quiet s = (s \<noteq> ExecuteHandler \<and> s \<noteq> InitiateAbilityEventWindow \<and>
              s \<noteq> OpenInitiateAbilityEventWindow \<and> s \<noteq> InitiateAbilityEffects)"

section \<open>Scenarios\<close>

text \<open>
  A unit (card 0) in the ground arena with one upgrade (card 1) attached, an event card
  (card 2) in the hand, all of player 0, and a token unit (card 3) of player 1 in the
  space arena. Each player has nine piles of its own in the store of arrays. The system
  defeats units and upgrades; its handler writes a line to the chat log.
\<close>

definition scenarioCards :: "nat \<Rightarrow> cardObj" where
  "scenarioCards i =
     (if i = 0 then
        \<lparr>uuid = ''card 0'', type = CardType_NonLeaderUnit, location = Location_GroundArena,
         controller = 0, owner = 0, upgrades = Some [1], parentCard = None,
         cardIsUnit = True, defaultController = None\<rparr>
      else if i = 1 then
        \<lparr>uuid = ''card 1'', type = CardType_Upgrade, location = Location_GroundArena,
         controller = 0, owner = 0, upgrades = None, parentCard = Some 0,
         cardIsUnit = False, defaultController = None\<rparr>
      else if i = 2 then
        \<lparr>uuid = ''card 2'', type = CardType_Event, location = Location_Hand, controller = 0,
         owner = 0, upgrades = None, parentCard = None,
         cardIsUnit = False, defaultController = None\<rparr>
      else
        \<lparr>uuid = ''card 3'', type = CardType_TokenUnit, location = Location_SpaceArena,
         controller = 1, owner = 1, upgrades = Some [], parentCard = None,
         cardIsUnit = True, defaultController = None\<rparr>)"

definition scenarioPlayers :: "nat \<Rightarrow> player" where
  "scenarioPlayers p =
     scenarioPlayer
       \<lparr>hand := 9 * p, drawDeck := 9 * p + 1, resources := 9 * p + 2, spaceArena := 9 * p + 3,
        groundArena := 9 * p + 4, discard := 9 * p + 5, removedFromGame := 9 * p + 6,
        baseZone := 9 * p + 7, leaderZone := 9 * p + 8\<rparr>"

definition scenarioGame :: "unit game" where
  "scenarioGame =
     \<lparr>cards = scenarioCards,
      players = scenarioPlayers,
      contexts = (\<lambda>c. \<lparr>stage = Stage_Target, gameActionsResolutionChain = [], source = 0\<rparr>),
      hasRestriction = (\<lambda>t n c. False),
      messages = [],
      frameworkContext = 1,
      arrays = [[2], [], [], [], [0, 1], [], [], [], [],
                [], [], [], [3], [], [], [], [], []],
      other = ()\<rparr>"

definition defeatSystem :: "unit gameSystem" where
  "defeatSystem =
     \<lparr>systemRef = 7, systemName = ''defeat'', eventName = ''onCardDefeated'',
      effectDescription = ''defeat {0}'', isCardTargetSystem = True,
      targetTypeFilter = [WildcardCardType_Unit, CardType CardType_Upgrade],
      isTargetTypeValidImpl = (\<lambda>g t. False),
      eventHandler = (\<lambda>d ps g. Inr (d, addMessage g ''{0} is defeated'' [])),
      propertiesOrFactory = Properties (noProperties\<lparr>target := Some (Array [Some (Card 0), Some (Card 2)])\<rparr>),
      getDefaultTargets = None\<rparr>"

text \<open>The same game once card 0 carries a restriction that names the system.\<close>

definition restrictedGame :: "unit game" where
  "restrictedGame =
     scenarioGame\<lparr>hasRestriction := (\<lambda>t n c. t = Card 0 \<and> n = ''defeat'')\<rparr>"

text \<open>
  The legal locations of the scenarios: a unit, an upgrade and an event card may be in
  the hand, the deck, the discard pile and the arenas, a token in the arenas only. No
  pile of the scenarios has a name that ends with \<^verbatim>\<open>' bottom'\<close>.
\<close>

definition scenarioLocations :: "cardType \<Rightarrow> locationFilter list option" where
  "scenarioLocations t =
     (if t = CardType_NonLeaderUnit \<or> t = CardType_Upgrade \<or> t = CardType_Event
      then Some [Location Location_Hand, Location Location_Deck, Location Location_Discard,
                 WildcardLocation_AnyArena]
      else if t = CardType_TokenUnit \<or> t = CardType_TokenUpgrade
      then Some [WildcardLocation_AnyArena]
      else None)"

text \<open>The event for card 0 leaving play, as the system prepares it, and its data.\<close>

definition leavesPlayEvent :: "unit gameEvent" where
  "leavesPlayEvent =
     addLeavesPlayPropertiesToEvent defeatSystem scenarioGame
       (createEvent defeatSystem scenarioGame (Card 0) 0 noProperties) (Card 0) 0 noProperties"

definition primaryData :: eventData where
  "primaryData = eventData.truncate leavesPlayEvent"

text \<open>
  The same data for the upgrade (card 1), sent to the resources, where no card of the
  scenarios may be, and for the token unit (card 3).
\<close>

definition upgradeData :: eventData where
  "upgradeData = primaryData\<lparr>eventCard := Some (Card 1), eventDestination := Some Location_Resource\<rparr>"

definition tokenData :: eventData where
  "tokenData = primaryData\<lparr>eventCard := Some (Card 3)\<rparr>"

text \<open>The game in which the deck of player 0 holds the upgrade (card 1) already.\<close>

definition heldGame :: "unit game" where
  "heldGame = scenarioGame\<lparr>arrays := (arrays scenarioGame)[1 := [1]]\<rparr>"

text \<open>
  Three targets: card 0 has an additional cost that can be paid, card 1 one that cannot,
  card 2 has none.
\<close>

definition scenarioCosts :: "unit game \<Rightarrow> target \<Rightarrow> unit unlessActionCost list" where
  "scenarioCosts g t =
     (if t = Card 2 then []
      else [\<lparr>actionName = ''defeat'',
             costHasLegalTarget = (\<lambda>t c g. t \<noteq> Card 1),
             costResolve = (\<lambda>t c g. (g, (\<lambda>g'. g'))),
             costGetEffectMessage = (\<lambda>t c g. ArgEffect ''pay'' [])\<rparr>])"

definition threeTargets :: "unit gameSystem" where
  "threeTargets =
     defeatSystem\<lparr>propertiesOrFactory :=
       Properties (noProperties\<lparr>target := Some (Array [Some (Card 0), Some (Card 1), Some (Card 2)])\<rparr>)\<rparr>"

text \<open>
  Two targets, card 0 and card 1, and an additional cost that is paid by discarding the
  one card in the hand (card 2): it has a legal target while that card is in the hand.
  In the first assignment both targets have this cost; in the second, card 1 has the
  same cost and card 0 has a cost that can never be paid.
\<close>

definition discardCost :: "unit unlessActionCost" where
  "discardCost =
     \<lparr>actionName = ''defeat'',
      costHasLegalTarget = (\<lambda>t c g. location (cards g 2) = Location_Hand),
      costResolve = (\<lambda>t c g. (g\<lparr>cards := (cards g)(2 := (cards g 2)\<lparr>location := Location_Discard\<rparr>)\<rparr>,
                              (\<lambda>g'. g'))),
      costGetEffectMessage = (\<lambda>t c g. ArgEffect ''discards a card'' [])\<rparr>"

definition unpayableCost :: "unit unlessActionCost" where
  "unpayableCost =
     \<lparr>actionName = ''defeat'',
      costHasLegalTarget = (\<lambda>t c g. False),
      costResolve = (\<lambda>t c g. (g, (\<lambda>g'. g'))),
      costGetEffectMessage = (\<lambda>t c g. ArgEffect ''pay'' [])\<rparr>"

definition bothDiscard :: "unit game \<Rightarrow> target \<Rightarrow> unit unlessActionCost list" where
  "bothDiscard g t = (if t = Card 0 \<or> t = Card 1 then [discardCost] else [])"

definition firstUnpayable :: "unit game \<Rightarrow> target \<Rightarrow> unit unlessActionCost list" where
  "firstUnpayable g t =
     (if t = Card 0 then [unpayableCost] else if t = Card 1 then [discardCost] else [])"

definition twoTargets :: "unit gameSystem" where
  "twoTargets =
     defeatSystem\<lparr>propertiesOrFactory :=
       Properties (noProperties\<lparr>target := Some (Array [Some (Card 0), Some (Card 1)])\<rparr>)\<rparr>"

text \<open>
  An optional triggered ability with one cost event. In the first environment the
  targeting calls leave the pass handler alone, the player answers Trigger and the cost
  is paid; in the second the cost event ends cancelled. The resolver that follows is
  the one of the second resolution when it reaches \<^verbatim>\<open>initiateAbilityEffects\<close>. In the
  third environment the targeting call marks the pass handler as shown, having offered
  the pass button itself; in the fourth the player answers Pass to the prompt.
\<close>

definition scenarioAbility :: abilityDef where
  "scenarioAbility =
     \<lparr>abilityOptional = True, cannotTargetFirst = False, isCardAbility = True,
      isCardPlayed = False, isActivatedAbility = False, abilityTypeIsEvent = False,
      hasLimit = False\<rparr>"

definition scenarioEnvironment :: "unit environment" where
  "scenarioEnvironment =
     \<lparr>resolveTargets =
        (\<lambda>r. \<lparr>answerResults = targetResultsOf r, handlerAfter = (\<lambda>h. h), passChosen = False\<rparr>),
      resolveRemainingTargets =
        (\<lambda>r. \<lparr>answerResults = targetResultsOf r, handlerAfter = (\<lambda>h. h), passChosen = False\<rparr>),
      resolveCosts = (\<lambda>r. (costResultsOf r)\<lparr>costEvents := [False]\<rparr>),
      costWindow = (\<lambda>r. costEvents (costResultsOf r)),
      hasLegalTargets = (\<lambda>r. True),
      checkAllTargets = (\<lambda>r. True),
      promptChoice = (\<lambda>r. False),
      initiateWindow = (\<lambda>r. True),
      thenWindow = (\<lambda>r. True),
      sourceLocation = (\<lambda>r. Location_GroundArena),
      cardStateWhenInitiated = (\<lambda>r. None)\<rparr>"

definition unpaidEnvironment :: "unit environment" where
  "unpaidEnvironment = scenarioEnvironment\<lparr>costWindow := (\<lambda>r. [True])\<rparr>"

definition unpaidResolver :: "unit resolver" where
  "unpaidResolver =
     (AbilityResolver_new scenarioAbility)
       \<lparr>resolverEvents := [GameEvent_new EventName_OnCardAbilityInitiated False],
        costResultsOf := (getCostResults True)\<lparr>costEvents := [True]\<rparr>,
        resolverCancelled := True,
        chat := [''{0} attempted to use {1}, but did not successfully pay the required costs'']\<rparr>"

definition markingEnvironment :: "unit environment" where
  "markingEnvironment =
     scenarioEnvironment
       \<lparr>resolveTargets :=
          (\<lambda>r. \<lparr>answerResults = targetResultsOf r,
                handlerAfter = (\<lambda>h. h\<lparr>hasBeenShown := True\<rparr>), passChosen = False\<rparr>)\<rparr>"

definition passingEnvironment :: "unit environment" where
  "passingEnvironment = scenarioEnvironment\<lparr>promptChoice := (\<lambda>r. True)\<rparr>"
section \<open>Properties of the cost adjustment\<close>

lemma foldl_minus_amount:
  "foldl (\<lambda>cost adjuster. cost - getAmount adjuster crd) acc as
     = acc + (\<Sum>a\<leftarrow>as. - getAmount a crd)"
  by (induction as arbitrary: acc) simp_all

lemma foldl_plus_amount:
  "foldl (\<lambda>cost adjuster. cost + getAmount adjuster crd) acc as
     = acc + (\<Sum>a\<leftarrow>as. getAmount a crd)"
  by (induction as arbitrary: acc) simp_all

lemma Math_max_spread_Nil_iff: "Math_max_spread xs = NegInfinity \<longleftrightarrow> xs = []"
  by (cases xs) (auto split: jsnum.splits)

lemma Math_max_spread_Max: "xs \<noteq> [] \<Longrightarrow> Math_max_spread xs = Num (Max (set xs))"
proof (induction xs)
  case Nil
  then show ?case by simp
next
  case (Cons x xs)
  show ?case
  proof (cases "xs = []")
    case True
    then show ?thesis by simp
  next
    case False
    with Cons.IH have "Math_max_spread xs = Num (Max (set xs))" by simp
    with False show ?thesis by simp
  qed
qed

lemma runAdjusters_empty:
  assumes "matching p pt crd tgt ig pa = []"
  shows "runAdjustersForCostType p pt c0 crd tgt ig pa = c0"
  using assms by (simp add: runAdjustersForCostType_def matching_def)

lemma runAdjusters_nonempty:
  assumes "matching p pt crd tgt ig pa \<noteq> []"
  shows "runAdjustersForCostType p pt c0 crd tgt ig pa =
           max (c0 + sumIncreases crd (matching p pt crd tgt ig pa)
                  - sumDecreases crd (matching p pt crd tgt ig pa))
               (min (c0 + sumIncreases crd (matching p pt crd tgt ig pa))
                    (Max (set (map costFloor (matching p pt crd tgt ig pa)))))"
proof -
  let ?m = "matching p pt crd tgt ig pa"
  have "map costFloor ?m \<noteq> []" using assms by simp
  then have "Math_max_spread (map costFloor ?m) = Num (Max (set (map costFloor ?m)))"
    by (rule Math_max_spread_Max)
  then show ?thesis
    unfolding runAdjustersForCostType_def Let_def matching_def [symmetric]
    by (simp add: foldl_minus_amount foldl_plus_amount sumIncreases_def sumDecreases_def)
qed

lemma deref_assign_same: "r < length h \<Longrightarrow> deref (assign h r xs) r = xs"
  by (simp add: deref_def assign_def)

lemma length_assign: "length (assign h r xs) = length h"
  by (simp add: assign_def)

lemma penaltyLoop_fst:
  "r < length h \<Longrightarrow> fst (penaltyLoop r cs acc h) = penaltyPure (deref h r) cs acc"
proof (induction cs arbitrary: acc h)
  case Nil
  then show ?case by simp
next
  case (Cons a cs)
  then show ?case
    by (simp add: Let_def deref_assign_same length_assign)
qed

lemma penaltyLoop_length:
  "length (snd (penaltyLoop r cs acc h)) = length h"
  by (induction cs arbitrary: acc h) (simp_all add: Let_def length_assign)

lemma penaltyLoop_frame:
  "i \<noteq> r \<Longrightarrow> snd (penaltyLoop r cs acc h) ! i = h ! i"
  by (induction cs arbitrary: acc h) (simp_all add: Let_def assign_def)

lemma penaltyLoop_take:
  "n \<le> r \<Longrightarrow> take n (snd (penaltyLoop r cs acc h)) = take n h"
  by (induction cs arbitrary: acc h) (simp_all add: Let_def assign_def)

lemma getPenaltyAspects_Inr:
  assumes "getPenaltyAspects p aspects h = Inr (pen, h')" and "wf_store p h"
  shows "take (length h) h' = h \<and> wf_store p h' \<and>
         (\<exists>h''. getPenaltyAspects p aspects h' = Inr (pen, h''))"
proof (cases aspects)
  case None
  with assms show ?thesis by (simp add: getPenaltyAspects_def)
next
  case (Some cs)
  from assms Some obtain l b where l: "leader p = Some l" and b: "base p = Some b"
    by (auto simp: getPenaltyAspects_def getAspects_def split: option.splits)
  from assms(2) l b have lb: "l < length h" "b < length h" by (simp_all add: wf_store_def)
  let ?xs = "deref h l @ deref h b"
  from assms Some l b have res: "penaltyLoop (length h) cs [] (h @ [?xs]) = (pen, h')"
    by (simp add: getPenaltyAspects_def getAspects_def alloc_def)
  have pen: "pen = penaltyPure ?xs cs []"
    using penaltyLoop_fst [of "length h" "h @ [?xs]" cs "[]"] res by (simp add: deref_def)
  have h': "h' = snd (penaltyLoop (length h) cs [] (h @ [?xs]))" using res by simp
  have len: "length h' = Suc (length h)" unfolding h' by (simp add: penaltyLoop_length)
  have tk: "take (length h) h' = h" unfolding h' by (simp add: penaltyLoop_take)
  have dl: "deref h' l = deref h l" 
    using lb len unfolding h' by (simp add: deref_def penaltyLoop_frame nth_append)
  have db: "deref h' b = deref h b"
    using lb len unfolding h' by (simp add: deref_def penaltyLoop_frame nth_append)
  have wf: "wf_store p h'" using lb len l b by (simp add: wf_store_def)
  have "fst (penaltyLoop (length h') cs [] (h' @ [?xs])) = pen"
    using penaltyLoop_fst [of "length h'" "h' @ [?xs]" cs "[]"] pen by (simp add: deref_def)
  then have "\<exists>h''. getPenaltyAspects p (Some cs) h' = Inr (pen, h'')"
    using l b dl db by (simp add: getPenaltyAspects_def getAspects_def alloc_def) (metis prod.collapse)
  with tk wf Some show ?thesis by simp
qed


section \<open>Properties of the systems\<close>

lemma some_iff: "some f xs \<longleftrightarrow> (\<exists>x \<in> set xs. f x)"
  by (induction xs) auto

lemma arrayIncludes_iff: "arrayIncludes xs x \<longleftrightarrow> x \<in> set xs"
  by (auto simp: arrayIncludes_def some_iff)

lemma cardTypeMatches_iff:
  "cardTypeMatches t fs \<longleftrightarrow> (\<exists>f \<in> set fs. t \<in> set (getCardTypesForFilter f))"
proof -
  have "(case f of
          WildcardCardType_Any \<Rightarrow> True
        | WildcardCardType_Unit \<Rightarrow> isUnit (CardType t)
        | WildcardCardType_Token \<Rightarrow> isToken (CardType t)
        | CardType t' \<Rightarrow> t = t') \<longleftrightarrow> t \<in> set (getCardTypesForFilter f)" for f
    by (cases f; cases t) auto
  then show ?thesis by (simp add: cardTypeMatches_def some_iff)
qed

lemma cannotBeCancelledG_resolved:
  "cannotBeCancelledG (generatePropertiesFromContext sys g context ap)
     = resolvedCannotBeCancelled sys g context ap"
  by (auto simp: generatePropertiesFromContext_def resolvedCannotBeCancelled_def Let_def
      Object_assign_def noProperties_def defaultProperties_def
      split: propertiesOrPropertyFactory.splits option.splits)

lemma hasLegalTargetLoop_iff:
  "hasLegalTargetLoop sys g context ap ts \<longleftrightarrow> (\<exists>t \<in> set ts. canAffect sys g t context ap)"
  by (induction ts) auto

lemma allTargetsLegalLoop_iff:
  "allTargetsLegalLoop sys g context ap ts \<longleftrightarrow> (\<forall>t \<in> set ts. canAffect sys g t context ap)"
  by (induction ts) auto

lemma generateEvent_fields:
  "condition (generateEvent sys g0 t context ap) = CheckEventCondition sys ap"
  "handler (generateEvent sys g0 t context ap) = EventHandler sys ap"
  "eventContext (generateEvent sys g0 t context ap) = Some context"
  "isCardTargetSystem sys \<Longrightarrow> eventCard (generateEvent sys g0 t context ap) = Some t"
  "\<not> cancelled (generateEvent sys g0 t context ap)"
  "name (generateEvent sys g0 t context ap) = eventName sys"
  "\<not> isContingent (generateEvent sys g0 t context ap)"
  by (simp_all add: generateEvent_def updateEvent_def addPropertiesToEvent_def createEvent_def
      GameEvent_new_def)

lemma contingentLoop_append:
  "contingentLoop defeat g event us acc =
     acc @ map (\<lambda>upgrade.
                 (generateEvent defeat g (Card upgrade) (frameworkContext g) noProperties)
                   \<lparr>order := order event - 1, isContingent := True,
                    condition := ContingentCondition
                      (condition (generateEvent defeat g (Card upgrade) (frameworkContext g) noProperties))
                      upgrade (eventCard event)\<rparr>)
             (filter (\<lambda>u. isArena (Location (location (cards g u)))) us)"
  by (induction us arbitrary: acc) (simp_all add: Let_def)

text \<open>The scenarios, evaluated.\<close>

lemma cA0: "canAffect defeatSystem scenarioGame (Card 0) 0 noProperties"
  by (simp add: canAffect_def Let_def generatePropertiesFromContext_def defeatSystem_def
      scenarioGame_def scenarioCards_def isTargetTypeValid_def cardTypeMatches_def
      arrayIncludes_def Object_assign_def noProperties_def defaultProperties_def)

lemma cA2: "\<not> canAffect defeatSystem scenarioGame (Card 2) 0 noProperties"
  by (simp add: canAffect_def Let_def generatePropertiesFromContext_def defeatSystem_def
      scenarioGame_def scenarioCards_def isTargetTypeValid_def cardTypeMatches_def
      arrayIncludes_def Object_assign_def noProperties_def defaultProperties_def)

lemma cAr: "\<not> canAffect defeatSystem restrictedGame (Card 0) 0 noProperties"
  by (simp add: canAffect_def Let_def generatePropertiesFromContext_def defeatSystem_def
      restrictedGame_def
      scenarioGame_def scenarioCards_def isTargetTypeValid_def cardTypeMatches_def
      arrayIncludes_def Object_assign_def noProperties_def defaultProperties_def)

lemma tg: "targets defeatSystem scenarioGame 0 noProperties = [Card 0, Card 2]"
  by (simp add: targets_def generatePropertiesFromContext_def defeatSystem_def Let_def
       Object_assign_def noProperties_def defaultProperties_def filterBoolean_def List.map_filter_simps)

lemma leavesPlayEvent_eq:
  "leavesPlayEvent =
     \<lparr>name = ''onCardDefeated'', cannotBeCancelledEvent = False, eventContext = Some 0,
      eventCard = Some (Card 0), cancelled = False, order = 0, isContingent = False,
      eventDestination = Some Location_Discard, eventOptions = None,
      condition = CheckEventCondition defeatSystem noProperties,
      handler = EventHandler defeatSystem noProperties\<rparr>"
  by (simp add: leavesPlayEvent_def addLeavesPlayPropertiesToEvent_def updateEvent_def
      addPropertiesToEvent_def createEvent_def GameEvent_new_def Let_def
      generatePropertiesFromContext_def Object_assign_def noProperties_def
      defaultProperties_def defeatSystem_def)

section \<open>Properties of the additional costs\<close>

lemma runSteps_append:
  "runSteps sys c ps (xs @ ys) r = runSteps sys c ps ys (runSteps sys c ps xs r)"
  by (induction sys c ps xs r rule: runSteps.induct) simp_all

lemma runSteps_Queued [simp]:
  "runSteps sys c ps (QueuedByCost k # ss) r = runSteps sys c ps ss (r\<lparr>game := k (game r)\<rparr>)"
  by simp

text \<open>The cost steps of one iteration.\<close>

lemma run_costs:
  "runSteps sys c ps (map (ResolveCardTargetingCosts i t) cs) r =
     r\<lparr>game := snd (payAdditionalCosts sys c ps t cs (game r)),
       allCostsPaid := (allCostsPaid r)
         (i := allCostsPaid r i \<and> fst (payAdditionalCosts sys c ps t cs (game r)))\<rparr>"
proof (induction cs arbitrary: r)
  case Nil
  show ?case by simp
next
  case (Cons a cs)
  show ?case
  proof (cases "costHasLegalTarget a t c (game r)")
    case True
    obtain g1 k where gk: "costResolve a t c (game r) = (g1, k)"
      by (cases "costResolve a t c (game r)")
    show ?thesis
      using True gk by (simp add: Cons.IH Let_def)
  next
    case False
    show ?thesis
      using False by (simp add: Cons.IH Let_def)
  qed
qed

lemma targetLoop_eq:
  "targetLoop gev sys g c ps n ts ev st =
     (ev @ map (\<lambda>t. generateEvent sys g t c ps)
             (filter (\<lambda>t. additionalCostsOf gev sys g t = []) ts),
      st @ concat (map (\<lambda>(i, t). cardSteps i t (additionalCostsOf gev sys g t)) (enumerate n ts)))"
  by (induction ts arbitrary: n ev st)
     (simp_all add: Let_def additionalCostsOf_def cardSteps_def)

text \<open>The steps of one iteration: the cost steps and the step that pushes the event.\<close>

lemma run_block:
  assumes "cs \<noteq> []"
  shows "runSteps sys c ps (cardSteps i t cs) r =
     (let paid = allCostsPaid r i \<and> fst (payAdditionalCosts sys c ps t cs (game r));
          g1 = snd (payAdditionalCosts sys c ps t cs (game r))
      in r\<lparr>game := g1,
           allCostsPaid := (allCostsPaid r)(i := paid),
           events := events r @ (if paid then [generateEvent sys g1 t c ps] else [])\<rparr>)"
  using assms by (simp add: cardSteps_def runSteps_append run_costs Let_def)

text \<open>The steps of all the iterations, from iteration \<open>n\<close> on.\<close>

lemma run_all:
  assumes "\<forall>j \<ge> n. allCostsPaid r j"
  shows "let r' = runSteps sys c ps
                    (concat (map (\<lambda>(i, t). cardSteps i t (costsOf t)) (enumerate n ts))) r in
     events r' = events r @ fst (eventsOfTargets costsOf sys c ps ts (game r)) \<and>
     game r' = snd (eventsOfTargets costsOf sys c ps ts (game r))"
  using assms
proof (induction ts arbitrary: n r)
  case Nil
  then show ?case by simp
next
  case (Cons t ts)
  show ?case
  proof (cases "costsOf t = []")
    case True
    have a: "\<forall>j \<ge> Suc n. allCostsPaid r j" using Cons.prems by simp
    from Cons.IH [OF a] True show ?thesis
      by (simp add: cardSteps_def Let_def)
  next
    case False
    let ?r1 = "runSteps sys c ps (cardSteps n t (costsOf t)) r"
    have paidn: "allCostsPaid r n" using Cons.prems by simp
    have r1: "?r1 =
      r\<lparr>game := snd (payAdditionalCosts sys c ps t (costsOf t) (game r)),
        allCostsPaid := (allCostsPaid r)(n := fst (payAdditionalCosts sys c ps t (costsOf t) (game r))),
        events := events r @
          (if fst (payAdditionalCosts sys c ps t (costsOf t) (game r))
           then [generateEvent sys (snd (payAdditionalCosts sys c ps t (costsOf t) (game r))) t c ps]
           else [])\<rparr>"
      using run_block [OF False, of sys c ps n t r] paidn by (simp add: Let_def)
    have a: "\<forall>j \<ge> Suc n. allCostsPaid ?r1 j" using Cons.prems by (simp add: r1)
    have run: "runSteps sys c ps
                 (concat (map (\<lambda>(i, t). cardSteps i t (costsOf t)) (enumerate n (t # ts)))) r =
               runSteps sys c ps
                 (concat (map (\<lambda>(i, t). cardSteps i t (costsOf t)) (enumerate (Suc n) ts))) ?r1"
      by (simp add: runSteps_append)
    have g1: "game ?r1 = snd (payAdditionalCosts sys c ps t (costsOf t) (game r))"
      by (simp add: r1)
    have e1: "events ?r1 = events r @
          (if fst (payAdditionalCosts sys c ps t (costsOf t) (game r))
           then [generateEvent sys (snd (payAdditionalCosts sys c ps t (costsOf t) (game r))) t c ps]
           else [])"
      by (simp add: r1)
    from Cons.IH [OF a] show ?thesis
      unfolding Let_def run g1 e1
      using False by (simp add: split_beta)
  qed
qed

lemma twoTargets_list:
  "targetList (generatePropertiesFromContext twoTargets scenarioGame 0 noProperties)
     = [Card 0, Card 1]"
  by (simp add: twoTargets_def generatePropertiesFromContext_def defeatSystem_def Let_def
       Object_assign_def noProperties_def defaultProperties_def filterBoolean_def)

lemma threeTargets_list:
  "targetList (generatePropertiesFromContext threeTargets scenarioGame 0 noProperties)
     = [Card 0, Card 1, Card 2]"
  by (simp add: threeTargets_def generatePropertiesFromContext_def defeatSystem_def Let_def
       Object_assign_def noProperties_def defaultProperties_def filterBoolean_def)
section \<open>Properties of the ability resolver\<close>

lemmas step_defs =
  resolveEarlyTargets_def checkForCancelOrPass_def
  openInitiateAbilityEventWindow_def initiateAbilityEventWindow_def resolveCostsStep_def
  payCosts_def costEventWindow_def checkCostsWerePaid_def resolveTargetsStep_def
  checkForPass_def handlerMenuPrompt_def initiateAbilityEffects_def thenEventWindow_def
  executeHandler_def targeting_def passHandler_def

lemma execute_cancelled:
  assumes "resolverCancelled r"
  shows "resolverCancelled (fst (execute env s r))"
    and "handlerCalls (fst (execute env s r)) = handlerCalls r"
    and "resolverEvents (fst (execute env s r)) = resolverEvents r \<or>
         resolverEvents (fst (execute env s r)) = map cancel (resolverEvents r)"
  using assms by (cases s; simp add: step_defs Let_def split: option.splits)+

lemma cancel_idem: "cancel (cancel e) = cancel e"
  by (simp add: cancel_def)

lemma cancel_cancel: "cancel \<circ> cancel = cancel"
  by (rule ext) (simp add: cancel_idem)

lemma run_cancelled:
  "resolverCancelled r \<Longrightarrow>
     resolverCancelled (runPipeline env ss r) \<and>
     handlerCalls (runPipeline env ss r) = handlerCalls r \<and>
     (resolverEvents (runPipeline env ss r) = resolverEvents r \<or>
      resolverEvents (runPipeline env ss r) = map cancel (resolverEvents r))"
proof (induction env ss r rule: runPipeline.induct)
  case (1 env r)
  then show ?case by simp
next
  case (2 env s ss r)
  let ?r1 = "fst (execute env s r)"
  from execute_cancelled [OF "2.prems", of env s]
  have c: "resolverCancelled ?r1" and h: "handlerCalls ?r1 = handlerCalls r"
    and e: "resolverEvents ?r1 = resolverEvents r \<or> resolverEvents ?r1 = map cancel (resolverEvents r)"
    by simp_all
  from "2.IH" [OF c] h e show ?case
    by (auto simp: cancel_cancel)
qed

lemma execute_promptShown:
  "keepsShown env \<Longrightarrow> promptShown r \<Longrightarrow> promptShown (fst (execute env s r))"
  by (cases s; auto simp: promptShown_def keepsShown_def step_defs Let_def split: option.splits)

lemma execute_count_shown:
  "promptShown r \<Longrightarrow> promptsShown (fst (execute env s r)) = promptsShown r"
  by (cases s; auto simp: promptShown_def step_defs Let_def split: option.splits)

lemma execute_promptInvariant:
  "keepsShown env \<Longrightarrow> promptInvariant r \<Longrightarrow> promptInvariant (fst (execute env s r))"
  by (cases s; auto simp: promptInvariant_def promptShown_def keepsShown_def step_defs Let_def
        split: option.splits)

lemma run_promptInvariant:
  "keepsShown env \<Longrightarrow> promptInvariant r \<Longrightarrow> promptInvariant (runPipeline env ss r)"
  by (induction env ss r rule: runPipeline.induct) (simp_all add: execute_promptInvariant)

lemma run_count_shown:
  "keepsShown env \<Longrightarrow> promptShown r \<Longrightarrow> promptsShown (runPipeline env ss r) = promptsShown r"
  by (induction env ss r rule: runPipeline.induct)
    (simp_all add: execute_promptShown execute_count_shown)

lemma new_promptInvariant: "promptInvariant (AbilityResolver_new ab)"
  by (simp add: promptInvariant_def AbilityResolver_new_def)

lemma execute_no_handler:
  assumes "passAbilityHandlerOf r = None"
  shows "passAbilityHandlerOf (fst (execute env s r)) = None"
    and "promptsShown (fst (execute env s r)) = promptsShown r"
  using assms by (cases s; simp add: step_defs Let_def split: option.splits)+

lemma run_no_handler:
  "passAbilityHandlerOf r = None \<Longrightarrow> promptsShown (runPipeline env ss r) = promptsShown r"
  by (induction env ss r rule: runPipeline.induct) (simp_all add: execute_no_handler)

lemma resolveEarlyTargets_frame:
  "costResultsOf (fst (execute env ResolveEarlyTargets r)) = costResultsOf r"
  "promptsShown (fst (execute env ResolveEarlyTargets r)) = promptsShown r"
  "snd (execute env ResolveEarlyTargets r) = []"
  by (simp_all add: step_defs Let_def)

lemma runPipeline_append:
  "runPipeline env (xs @ ys) r = runPipeline env ys (runPipeline env xs r)"
  by (induction env xs r rule: runPipeline.induct) simp_all

lemma execute_quiet:
  assumes "quiet s"
  shows "handlerCalls (fst (execute env s r)) = handlerCalls r"
    and "resolverEvents (fst (execute env s r)) = resolverEvents r"
    and "\<forall>q \<in> set (snd (execute env s r)). quiet q"
  using assms
  by (cases s; simp add: quiet_def step_defs Let_def split: option.splits)+

lemma run_quiet:
  "\<forall>s \<in> set ss. quiet s \<Longrightarrow>
     handlerCalls (runPipeline env ss r) = handlerCalls r \<and>
     resolverEvents (runPipeline env ss r) = resolverEvents r"
proof (induction env ss r rule: runPipeline.induct)
  case (1 env r)
  then show ?case by simp
next
  case (2 env s ss r)
  from "2.prems" have q: "quiet s" and qs: "\<forall>s \<in> set ss. quiet s" by simp_all
  from execute_quiet [OF q, of env r] qs
  have "\<forall>s \<in> set (snd (execute env s r) @ ss). quiet s" by auto
  from "2.IH" [OF this] execute_quiet(1,2) [OF q, of env r] show ?case by simp
qed

lemma tail_cancelled:
  fixes env :: "'x environment"
  assumes "handlerCalls r = 0"
  shows "let r' = runPipeline env [InitiateAbilityEffects, ExecuteHandler] r in
           resolverCancelled r' \<longrightarrow> handlerCalls r' = 0 \<and> (\<forall>e \<in> set (resolverEvents r'). cancelled e)"
  using assms
  by (auto simp: step_defs Let_def cancel_def split: if_splits)

lemma initiate_steps:
  fixes env :: "'x environment"
  assumes "handlerCalls r = 0"
  shows "let r' = runPipeline env queueInitiateAbilitySteps r in
           resolverCancelled r' \<longrightarrow> handlerCalls r' = 0 \<and> (\<forall>e \<in> set (resolverEvents r'). cancelled e)"
proof -
  let ?P = "[ResolveCosts, PayCosts, CheckCostsWerePaid, ResolveTargets, CheckForCancelOrPass]"
  have s: "queueInitiateAbilitySteps = ?P @ [InitiateAbilityEffects, ExecuteHandler]"
    by (simp add: queueInitiateAbilitySteps_def)
  have "\<forall>s \<in> set ?P. quiet s" by (simp add: quiet_def)
  from run_quiet [OF this, of env r] assms
  have "handlerCalls (runPipeline env ?P r) = 0" by simp
  from tail_cancelled [OF this, of env] show ?thesis
    unfolding s runPipeline_append .
qed

text \<open>A whole resolution that ends cancelled.\<close>

lemma resolveAbility_cancelled:
  fixes env :: "'x environment"
  shows "let r' = resolveAbility env ab in
           resolverCancelled r' \<longrightarrow> handlerCalls r' = 0 \<and> (\<forall>e \<in> set (resolverEvents r'). cancelled e)"
proof -
  let ?r0 = "AbilityResolver_new ab :: 'x resolver"
  let ?rA = "runPipeline env [ResolveEarlyTargets, CheckForCancelOrPass] ?r0"
  have "\<forall>s \<in> set [ResolveEarlyTargets, CheckForCancelOrPass]. quiet s" by (simp add: quiet_def)
  from run_quiet [OF this, of env ?r0]
  have h: "handlerCalls ?rA = 0" and e: "resolverEvents ?rA = []"
    by (simp_all add: AbilityResolver_new_def)
  have run: "resolveAbility env ab = runPipeline env [OpenInitiateAbilityEventWindow] ?rA"
    unfolding resolveAbility_def initialise_def
    using runPipeline_append [of env "[ResolveEarlyTargets, CheckForCancelOrPass]"
        "[OpenInitiateAbilityEventWindow]" ?r0] by simp
  show ?thesis
  proof (cases "resolverCancelled ?rA")
    case True
    then have "runPipeline env [OpenInitiateAbilityEventWindow] ?rA = ?rA"
      by (simp add: openInitiateAbilityEventWindow_def del: runPipeline.simps(2)
          add: runPipeline.simps(2) [of env OpenInitiateAbilityEventWindow "[]" ?rA])
    with run h e show ?thesis by (simp add: Let_def del: runPipeline.simps)
  next
    case False
    obtain rB where rB: "execute env OpenInitiateAbilityEventWindow ?rA = (rB, [InitiateAbilityEventWindow])"
      and hB: "handlerCalls rB = 0" and cB: "\<not> resolverCancelled rB"
      using False h by (simp add: openInitiateAbilityEventWindow_def Let_def del: runPipeline.simps)
    have r1: "runPipeline env [OpenInitiateAbilityEventWindow] ?rA =
                runPipeline env [InitiateAbilityEventWindow] rB"
      using rB by (simp add: runPipeline.simps(2) [of env OpenInitiateAbilityEventWindow "[]" ?rA]
          del: runPipeline.simps)
    show ?thesis
    proof (cases "initiateWindow env rB")
      case True
      then have "runPipeline env [InitiateAbilityEventWindow] rB =
                   runPipeline env queueInitiateAbilitySteps rB"
        by (simp add: runPipeline.simps(2) [of env InitiateAbilityEventWindow "[]" rB]
            initiateAbilityEventWindow_def del: runPipeline.simps)
      with initiate_steps [OF hB, of env] run r1 show ?thesis by (simp del: runPipeline.simps)
    next
      case False
      then have "runPipeline env [InitiateAbilityEventWindow] rB = rB"
        by (simp add: runPipeline.simps(2) [of env InitiateAbilityEventWindow "[]" rB]
            initiateAbilityEventWindow_def del: runPipeline.simps(2))
      with cB run r1 show ?thesis by (simp add: Let_def del: runPipeline.simps)
    qed
  qed
qed

text \<open>The scenarios, evaluated.\<close>

lemmas scenario_defs =
  resolveAbility_def initialise_def AbilityResolver_new_def scenarioAbility_def
  scenarioEnvironment_def unpaidEnvironment_def step_defs Let_def queueInitiateAbilitySteps_def
  getCostResults_def GameEvent_new_def cancel_def

lemma scenario_run:
  "promptsShown (resolveAbility scenarioEnvironment scenarioAbility) = 1"
  "handlerCalls (resolveAbility scenarioEnvironment scenarioAbility) = 1"
  "map cancelled (resolverEvents (resolveAbility scenarioEnvironment scenarioAbility)) = [False]"
  by (simp_all add: scenario_defs)

lemma scenario_keepsShown: "keepsShown scenarioEnvironment" "keepsShown passingEnvironment"
  by (simp_all add: keepsShown_def scenarioEnvironment_def passingEnvironment_def)

lemma unpaid_run:
  "resolverCancelled (resolveAbility unpaidEnvironment scenarioAbility)"
  "handlerCalls (resolveAbility unpaidEnvironment scenarioAbility) = 0"
  "map cancelled (resolverEvents (resolveAbility unpaidEnvironment scenarioAbility)) = [True]"
  by (simp_all add: scenario_defs)

section \<open>Properties of the moves\<close>

text \<open>What removing a card from its pile and reading a pile leave alone.\<close>

lemma getCardPile_cards [simp]: "cards (snd (getCardPile p l g)) = cards g"
  by (cases l) (simp_all add: getCardPile_def createAdditionalPile_def newArray_def Let_def)

lemma removeCardFromPile_cards [simp]: "cards (removeCardFromPile p crd g) = cards g"
  by (simp add: removeCardFromPile_def newArray_def Let_def split_beta
      split: option.splits location.splits)

lemma getCardPile_fixed:
  "\<forall>s. l \<noteq> Location_Other s \<Longrightarrow> snd (getCardPile p l g) = g"
  by (cases l) (simp_all add: getCardPile_def)

lemma getCardPile_additionalPiles:
  "\<forall>s. l \<noteq> Location_Other s \<Longrightarrow>
     additionalPiles (players (snd (getCardPile p l' g)) q) l = additionalPiles (players g q) l"
  by (cases l') (auto simp: getCardPile_def createAdditionalPile_def newArray_def Let_def)

lemma removeCardFromPile_additionalPiles:
  "\<forall>s. l \<noteq> Location_Other s \<Longrightarrow>
     additionalPiles (players (removeCardFromPile p crd g) q) l = additionalPiles (players g q) l"
  by (cases "location (cards g crd)")
    (auto simp: removeCardFromPile_def getCardPile_def createAdditionalPile_def newArray_def
      Let_def split_beta split: option.splits)

lemma removeCardFromPile_legal:
  "\<forall>s. l \<noteq> Location_Other s \<Longrightarrow>
     isLegalLocationForCardType table (players (removeCardFromPile p crd g) q) t l =
     isLegalLocationForCardType table (players g q) t l"
  by (simp add: isLegalLocationForCardType_def removeCardFromPile_additionalPiles)

text \<open>The guard of \<^verbatim>\<open>moveCard\<close> on a move to the deck.\<close>

lemma moveCard_guard:
  assumes "\<not> isLegalLocationForCardType table (players g p) (type (cards g crd)) Location_Deck"
  shows "moveCard (Suc n) table named p crd Location_Deck bottom g = Some (Inl ContractFailure)"
proof -
  have e: "\<not> endsWithBottom Location_Deck" by (simp add: endsWithBottom_def)
  have f: "getCardPile p Location_Deck (removeCardFromPile p crd g) =
             (Some (drawDeck (players (removeCardFromPile p crd g) p)), removeCardFromPile p crd g)"
    by (simp add: getCardPile_def)
  show ?thesis
    using assms by (simp add: e f Let_def removeCardFromPile_legal)
qed

text \<open>A move that returns has set the location of the card.\<close>

lemma moveTo_location [simp]: "location (cards (moveTo crd l g) crd) = l"
  by (simp add: moveTo_def)

lemma moveCard_location:
  assumes "\<not> endsWithBottom l"
    and "moveCard n table named p crd l bottom g = Some (Inr g')"
  shows "location (cards g' crd) = l"
  using assms(2)
proof (induction n arbitrary: p bottom g)
  case 0
  then show ?case by simp
next
  case (Suc n)
  obtain tp g2 where gp: "getCardPile p l (removeCardFromPile p crd g) = (tp, g2)"
    by (cases "getCardPile p l (removeCardFromPile p crd g)")
  show ?case
  proof (cases "isArena (Location (location (cards g2 crd))) \<and> owner (cards g2 crd) \<noteq> p")
    case True
    with Suc.prems assms(1) gp
    have "moveCard n table named (owner (cards g2 crd)) crd l bottom g2 = Some (Inr g')"
      by (simp add: Let_def split: if_splits)
    then show ?thesis by (rule Suc.IH)
  next
    case False
    with Suc.prems assms(1) gp show ?thesis
      by (auto simp: Let_def split: if_splits option.splits sum.splits)
  qed
qed

text \<open>
  The deck once the card is removed from its pile, and the move to the deck of a card
  that has no upgrade to move first.
\<close>

lemma removeCardFromPile_deck:
  assumes "drawDeck (players g p) < length (arrays g)"
  shows "drawDeck (players (removeCardFromPile p crd g) p) < length (arrays (removeCardFromPile p crd g)) \<and>
         set (arrayAt (removeCardFromPile p crd g) (drawDeck (players (removeCardFromPile p crd g) p)))
           \<subseteq> set (arrayAt g (drawDeck (players g p)))"
  using assms
  by (cases "location (cards g crd)")
    (auto simp: removeCardFromPile_def getCardPile_def createAdditionalPile_def newArray_def
      arrayAt_def removeCardByUuid_def Let_def split_beta nth_append split: option.splits)

lemma removeCardFromPile_deck_kept:
  assumes "drawDeck (players g p) < length (arrays g)"
    and "location (cards g crd) \<noteq> Location_Deck"
  shows "drawDeck (players (removeCardFromPile p crd g) p) = drawDeck (players g p) \<and>
         arrayAt (removeCardFromPile p crd g) (drawDeck (players g p))
           = arrayAt g (drawDeck (players g p))"
  using assms
  by (cases "location (cards g crd)")
    (auto simp: removeCardFromPile_def getCardPile_def createAdditionalPile_def newArray_def
      arrayAt_def Let_def split_beta nth_append split: option.splits)

lemma moveCard_guard_held:
  assumes wf: "drawDeck (players g p) < length (arrays g)"
    and held: "crd \<in> set (arrayAt g (drawDeck (players g p)))"
    and loc: "location (cards g crd) \<noteq> Location_Deck"
  shows "moveCard (Suc n) table named p crd Location_Deck bottom g = Some (Inl ContractFailure)"
proof -
  let ?g1 = "removeCardFromPile p crd g"
  have e: "\<not> endsWithBottom Location_Deck" by (simp add: endsWithBottom_def)
  have f: "getCardPile p Location_Deck ?g1 = (Some (drawDeck (players ?g1 p)), ?g1)"
    by (simp add: getCardPile_def)
  from removeCardFromPile_deck_kept [OF wf loc] held
  have "crd \<in> set (arrayAt ?g1 (drawDeck (players ?g1 p)))" by simp
  then show ?thesis by (simp add: e f Let_def)
qed

lemma moveCard_deck_ok:
  assumes legal: "isLegalLocationForCardType table (players g p) (type (cards g crd)) Location_Deck"
    and wf: "drawDeck (players g p) < length (arrays g)"
    and notin: "crd \<notin> set (arrayAt g (drawDeck (players g p)))"
    and own: "owner (cards g crd) = p"
    and up: "isArena (Location (location (cards g crd))) \<and> cardIsUnit (cards g crd)
               \<longrightarrow> upgrades (cards g crd) = Some []"
  shows "\<exists>g'. moveCard (Suc n) table named p crd Location_Deck bottom g = Some (Inr g') \<and>
              location (cards g' crd) = Location_Deck \<and>
              crd \<in> set (arrayAt g' (drawDeck (players g' p)))"
proof -
  let ?g1 = "removeCardFromPile p crd g"
  have e: "\<not> endsWithBottom Location_Deck" by (simp add: endsWithBottom_def)
  have f: "getCardPile p Location_Deck ?g1 = (Some (drawDeck (players ?g1 p)), ?g1)"
    by (simp add: getCardPile_def)
  from removeCardFromPile_deck [OF wf, of crd] notin
  have wf1: "drawDeck (players ?g1 p) < length (arrays ?g1)"
    and n1: "crd \<notin> set (arrayAt ?g1 (drawDeck (players ?g1 p)))" by auto
  have l1: "isLegalLocationForCardType table (players ?g1 p) (type (cards g crd)) Location_Deck"
    using legal by (simp add: removeCardFromPile_legal)
  show ?thesis
    using l1 n1 wf1 own up
    by (auto simp: e f Let_def addToPile_def arrayPut_def arrayAt_def moveTo_def setController_def)
qed

text \<open>A move writes no message.\<close>

lemma getCardPile_messages [simp]: "messages (snd (getCardPile p l g)) = messages g"
  by (cases l) (simp_all add: getCardPile_def createAdditionalPile_def newArray_def Let_def)

lemma removeCardFromPile_messages [simp]: "messages (removeCardFromPile p crd g) = messages g"
  by (simp add: removeCardFromPile_def newArray_def Let_def split_beta
      split: option.splits location.splits)

lemma finish_messages [simp]:
  "messages (moveTo crd l g) = messages g"
  "messages (addToPile l b tp crd g) = messages g"
  "messages (setController crd p g) = messages g"
  "messages (setDefaultController crd p g) = messages g"
  by (simp_all add: moveTo_def addToPile_def arrayPut_def setController_def
      setDefaultController_def split: option.splits)

lemma forEach_messages:
  assumes "\<And>x g g'. body x g = Some (Inr g') \<Longrightarrow> messages g' = messages g"
    and "forEach body xs g = Some (Inr g')"
  shows "messages g' = messages g"
  using assms(2)
proof (induction xs arbitrary: g)
  case Nil
  then show ?case by simp
next
  case (Cons x xs)
  then obtain g1 where b: "body x g = Some (Inr g1)" and r: "forEach body xs g1 = Some (Inr g')"
    by (auto split: option.splits sum.splits)
  from Cons.IH [OF r] assms(1) [OF b] show ?case by simp
qed

lemma moveCard_messages:
  "moveCard n table named p crd l bottom g = Some (Inr g') \<Longrightarrow> messages g' = messages g"
proof (induction n arbitrary: p crd l bottom g g')
  case 0
  then show ?case by simp
next
  case (Suc n)
  let ?l1 = "if endsWithBottom l then withoutBottom named l else l"
  let ?b1 = "if endsWithBottom l then True else bottom"
  obtain tp g2 where gp: "getCardPile p ?l1 (removeCardFromPile p crd g) = (tp, g2)"
    by (cases "getCardPile p ?l1 (removeCardFromPile p crd g)")
  have m2: "messages g2 = messages g"
    using getCardPile_messages [of p ?l1 "removeCardFromPile p crd g"] gp by simp
  show ?case
  proof (cases "isArena (Location (location (cards g2 crd)))")
    case True
    show ?thesis
    proof (cases "owner (cards g2 crd) \<noteq> p")
      case True
      with Suc.prems gp \<open>isArena (Location (location (cards g2 crd)))\<close>
      have "moveCard n table named (owner (cards g2 crd)) crd ?l1 ?b1 g2 = Some (Inr g')"
        by (simp add: Let_def split: if_splits)
      from Suc.IH [OF this] m2 show ?thesis by simp
    next
      case False
      show ?thesis
      proof (cases "cardIsUnit (cards g2 crd)")
        case True
        with Suc.prems gp False \<open>isArena (Location (location (cards g2 crd)))\<close>
        obtain us g3 where u: "upgrades (cards g2 crd) = Some us"
          and f: "forEach (\<lambda>upgrade g'. moveCard n table named (owner (cards g' upgrade)) upgrade
                              Location_Discard False g') us g2 = Some (Inr g3)"
          and r: "g' = moveTo crd ?l1 (addToPile ?l1 ?b1 tp crd (setController crd p g3))"
          by (auto simp: Let_def split: if_splits option.splits sum.splits)
        have "messages g3 = messages g2"
          by (rule forEach_messages [OF _ f]) (rule Suc.IH)
        with r m2 show ?thesis by simp
      next
        case False
        with Suc.prems gp \<open>\<not> owner (cards g2 crd) \<noteq> p\<close>
          \<open>isArena (Location (location (cards g2 crd)))\<close> m2
        show ?thesis by (auto simp: Let_def split: if_splits)
      qed
    qed
  next
    case False
    with Suc.prems gp m2 show ?thesis
      by (auto simp: Let_def split: if_splits)
  qed
qed

text \<open>The scenarios, evaluated.\<close>

lemmas move_defs =
  removeCardFromPile_def getCardPile_def createAdditionalPile_def newArray_def arrayAt_def
  arrayPut_def removeCardByUuid_def isLegalLocationForCardType_def cardLocationMatches_def
  endsWithBottom_def addToPile_def moveTo_def setController_def setDefaultController_def
  Let_def

lemmas scenario_move_defs =
  scenarioGame_def scenarioCards_def scenarioPlayers_def scenarioPlayer_def scenarioLocations_def

lemma primaryData_eq:
  "primaryData =
     \<lparr>name = ''onCardDefeated'', cannotBeCancelledEvent = False, eventContext = Some 0,
      eventCard = Some (Card 0), cancelled = False, order = 0, isContingent = False,
      eventDestination = Some Location_Discard, eventOptions = None\<rparr>"
  by (simp add: primaryData_def eventData.truncate_def
      leavesPlayEvent_def addLeavesPlayPropertiesToEvent_def updateEvent_def
      addPropertiesToEvent_def createEvent_def GameEvent_new_def Let_def
      generatePropertiesFromContext_def Object_assign_def noProperties_def
      defaultProperties_def defeatSystem_def)

lemma scenario_legal:
  "\<not> isLegalLocationForCardType scenarioLocations (players scenarioGame 0)
        CardType_Upgrade Location_Resource"
  "isLegalLocationForCardType scenarioLocations (players scenarioGame 0)
        CardType_Upgrade Location_Deck"
  "\<not> isLegalLocationForCardType scenarioLocations (players scenarioGame 1)
        CardType_TokenUnit Location_Discard"
  "\<not> isLegalLocationForCardType scenarioLocations (players scenarioGame 1)
        CardType_TokenUnit Location_Deck"
  "isLegalLocationForCardType scenarioLocations (players scenarioGame 0)
        CardType_NonLeaderUnit Location_Discard"
  by (simp_all add: isLegalLocationForCardType_def cardLocationMatches_def scenario_move_defs)

lemma scenario_cards:
  "type (cards scenarioGame 0) = CardType_NonLeaderUnit" "owner (cards scenarioGame 0) = 0"
  "type (cards scenarioGame 1) = CardType_Upgrade" "owner (cards scenarioGame 1) = 0"
  "type (cards scenarioGame 3) = CardType_TokenUnit" "owner (cards scenarioGame 3) = 1"
  "\<not> cardIsUnit (cards scenarioGame 1)"
  by (simp_all add: scenarioGame_def scenarioCards_def)

lemma scenario_deck:
  "drawDeck (players scenarioGame 0) < length (arrays scenarioGame)"
  "1 \<notin> set (arrayAt scenarioGame (drawDeck (players scenarioGame 0)))"
  by (simp_all add: scenario_move_defs arrayAt_def)

lemma held_deck:
  "drawDeck (players heldGame 0) < length (arrays heldGame)"
  "1 \<in> set (arrayAt heldGame (drawDeck (players heldGame 0)))"
  "location (cards heldGame 1) \<noteq> Location_Deck"
  "owner (cards heldGame 1) = 0" "type (cards heldGame 1) = CardType_Upgrade"
  "\<not> isLegalLocationForCardType scenarioLocations (players heldGame 0)
        CardType_Upgrade Location_Resource"
  by (simp_all add: heldGame_def scenario_move_defs arrayAt_def isLegalLocationForCardType_def
      cardLocationMatches_def)

lemma unit_discarded:
  "\<exists>g2. moveCard (Suc (Suc 0)) scenarioLocations Location_Other 0 0 Location_Discard False
     scenarioGame = Some (Inr g2) \<and>
     location (cards g2 1) = Location_Discard \<and>
     arrayAt g2 (discard (players g2 0)) = [0, 1]"
  by (simp add: move_defs scenario_move_defs)

subsection \<open>The claims on the cost adjustment\<close>

text \<open>
  Claim C3. One pass of \<^verbatim>\<open>runAdjustersForCostType\<close> with base cost \<open>c0\<close>: let
  \<open>ms\<close> be the matching adjusters and \<open>C = c0 + (sum of increases)\<close> the cost before the
  decreases. With no matching adjuster the pass returns \<open>C\<close> (there is no floor:
  \<^verbatim>\<open>Math.max()\<close> of nothing is minus infinity). Otherwise it returns
  \<open>max (C - sum of decreases) (min C F)\<close> where \<open>F\<close> is the greatest floor among the matching
  adjusters. In both cases the result is at least \<open>min C (costFloor a)\<close> for every matching
  adjuster \<open>a\<close>.
\<close>

theorem runAdjustersForCostType_floor:
  "(let ms = matching p pt crd tgt ig pa;
        C = c0 + sumIncreases crd ms;
        r = runAdjustersForCostType p pt c0 crd tgt ig pa
    in (ms = [] \<longrightarrow> r = C) \<and>
       (ms \<noteq> [] \<longrightarrow>
          r = max (C - sumDecreases crd ms) (min C (Max (set (map costFloor ms))))) \<and>
       (\<forall>a \<in> set ms. min C (costFloor a) \<le> r))"
proof -
  let ?ms = "matching p pt crd tgt ig pa"
  let ?C = "c0 + sumIncreases crd ?ms"
  let ?r = "runAdjustersForCostType p pt c0 crd tgt ig pa"
  have e: "?ms = [] \<longrightarrow> ?r = ?C"
    by (simp add: runAdjusters_empty sumIncreases_def)
  have n: "?ms \<noteq> [] \<longrightarrow>
      ?r = max (?C - sumDecreases crd ?ms) (min ?C (Max (set (map costFloor ?ms))))"
    by (simp add: runAdjusters_nonempty)
  have f: "\<forall>a \<in> set ?ms. min ?C (costFloor a) \<le> ?r"
  proof
    fix a assume a: "a \<in> set ?ms"
    then have ne: "?ms \<noteq> []" by auto
    have "costFloor a \<le> Max (set (map costFloor ?ms))" using a by simp
    then have "min ?C (costFloor a) \<le> min ?C (Max (set (map costFloor ?ms)))"
      by (simp add: min.coboundedI2)
    also have "\<dots> \<le> ?r" using n ne by simp
    finally show "min ?C (costFloor a) \<le> ?r" .
  qed
  from e n f show ?thesis by (simp add: Let_def)
qed

text \<open>
  The pass on the penalized cost 4 of the scenario: the one adjuster matches, nothing
  increases the cost, the decreases sum to 1, and the result is 3, above the floor.
\<close>

theorem runAdjustersForCostType_floor_witness:
  "matching scenarioPlayer ''playFromHand'' scenarioCard None False None = [discountAdjuster] \<and>
   sumIncreases scenarioCard [discountAdjuster] = 0 \<and>
   sumDecreases scenarioCard [discountAdjuster] = 1 \<and>
   runAdjustersForCostType scenarioPlayer ''playFromHand'' 4 scenarioCard None False None = 3 \<and>
   min 4 (costFloor discountAdjuster) \<le>
     runAdjustersForCostType scenarioPlayer ''playFromHand'' 4 scenarioCard None False None"
  using runAdjustersForCostType_floor
    [of scenarioPlayer "''playFromHand''" scenarioCard None False None 4]
  by (simp add: Let_def matching_def scenarioPlayer_def discountAdjuster_def sumIncreases_def
      sumDecreases_def)

text \<open>
  Claim C10. \<^verbatim>\<open>getAdjustedCost\<close> called twice in a row with the same arguments returns
  the same value: when the first call returns \<open>v\<close> and leaves the store \<open>h'\<close>, the second
  call, started in \<open>h'\<close>, returns \<open>v\<close> again. The first call changes no array that existed
  before it (it works on the copy \<^verbatim>\<open>concat\<close> made), and it writes no field of the player:
  the adjusters are only read, none is marked used.
\<close>

theorem getAdjustedCost_idempotent:
  assumes "wf_store p h"
    and "getAdjustedCost p pt crd tgt ig aspects h = Inr (v, h')"
  shows "take (length h) h' = h \<and> wf_store p h' \<and>
         (\<exists>h''. getAdjustedCost p pt crd tgt ig aspects h' = Inr (v, h''))"
proof -
  from assms(2) obtain pen where
    g: "getPenaltyAspects p aspects h = Inr (pen, h')" and
    v: "v = runAdjustersForCostType p pt (cost crd + aspectPenalties p pt crd tgt ig pen 0)
              crd tgt ig None"
    by (auto simp: getAdjustedCost_def Let_def split: sum.splits)
  from getPenaltyAspects_Inr [OF g assms(1)] obtain h'' where
    "take (length h) h' = h" and "wf_store p h'" and
    "getPenaltyAspects p aspects h' = Inr (pen, h'')"
    by blast
  with v show ?thesis by (auto simp: getAdjustedCost_def Let_def)
qed

text \<open>
  The scenario: a card of cost 2 with the aspects command and villainy, played by a player
  whose leader and base give command and vigilance. The first call returns 3 and leaves
  the copy it worked on in the store; the second call returns 3 again.
\<close>

theorem getAdjustedCost_idempotent_witness:
  "wf_store scenarioPlayer scenarioStore \<and>
   getAdjustedCost scenarioPlayer ''playFromHand'' scenarioCard None False
       (Some [''command'', ''villainy'']) scenarioStore
     = Inr (3, scenarioStore @ [[''vigilance'']]) \<and>
   take (length scenarioStore) (scenarioStore @ [[''vigilance'']]) = scenarioStore \<and>
   (\<exists>h''. getAdjustedCost scenarioPlayer ''playFromHand'' scenarioCard None False
       (Some [''command'', ''villainy'']) (scenarioStore @ [[''vigilance'']]) = Inr (3, h''))"
proof -
  have wf: "wf_store scenarioPlayer scenarioStore"
    by (simp add: wf_store_def scenarioPlayer_def scenarioStore_def)
  have r: "getAdjustedCost scenarioPlayer ''playFromHand'' scenarioCard None False
       (Some [''command'', ''villainy'']) scenarioStore
     = Inr (3, scenarioStore @ [[''vigilance'']])"
    by (simp add: getAdjustedCost_def getPenaltyAspects_def getAspects_def alloc_def deref_def
        assign_def splice1_def Let_def runAdjustersForCostType_def scenarioPlayer_def
        scenarioStore_def scenarioCard_def discountAdjuster_def)
  from getAdjustedCost_idempotent [OF wf r] wf r show ?thesis by simp
qed

subsection \<open>The claims on the systems\<close>

text \<open>
  Claim C4. \<^verbatim>\<open>canAffect(target, context)\<close> is true exactly when the type of the target
  passes the type filter of the system (\<^verbatim>\<open>isTargetTypeValid\<close>), the system is not in
  \<^verbatim>\<open>context.gameActionsResolutionChain\<close>, and either the stage of the context is
  \<^verbatim>\<open>EffectTmp\<close> and the property \<^verbatim>\<open>cannotBeCancelled\<close> of the system is true, or
  the target has no restriction that names the system. For a card target system the type
  filter accepts the cards whose type is among the types of one of its filters.
\<close>

theorem canAffect_iff:
  "(canAffect sys g t context ap \<longleftrightarrow>
      isTargetTypeValid sys g t \<and>
      systemRef sys \<notin> set (gameActionsResolutionChain (contexts g context)) \<and>
      ((stage (contexts g context) = Stage_EffectTmp \<and>
        resolvedCannotBeCancelled sys g context ap) \<or>
       \<not> hasRestriction g t (systemName sys) context)) \<and>
   (isCardTargetSystem sys \<longrightarrow>
      (isTargetTypeValid sys g t \<longleftrightarrow>
         (\<exists>c. t = Card c \<and>
            (\<exists>f \<in> set (targetTypeFilter sys).
               type (cards g c) \<in> set (getCardTypesForFilter f)))))"
  by (cases t)
    (auto simp: canAffect_def Let_def arrayIncludes_iff cannotBeCancelledG_resolved
      isTargetTypeValid_def cardTypeMatches_iff)

text \<open>
  Card 0, a unit, can be defeated; it cannot once it carries a restriction naming the
  system; card 2, an event card, does not pass the type filter.
\<close>

theorem canAffect_iff_witness:
  "canAffect defeatSystem scenarioGame (Card 0) 0 noProperties \<and>
   isTargetTypeValid defeatSystem scenarioGame (Card 0) \<and>
   \<not> hasRestriction scenarioGame (Card 0) (systemName defeatSystem) 0 \<and>
   \<not> canAffect defeatSystem restrictedGame (Card 0) 0 noProperties \<and>
   hasRestriction restrictedGame (Card 0) (systemName defeatSystem) 0 \<and>
   \<not> canAffect defeatSystem scenarioGame (Card 2) 0 noProperties \<and>
   \<not> isTargetTypeValid defeatSystem scenarioGame (Card 2)"
  using canAffect_iff [of defeatSystem scenarioGame "Card 0" 0 noProperties]
    canAffect_iff [of defeatSystem restrictedGame "Card 0" 0 noProperties]
    canAffect_iff [of defeatSystem scenarioGame "Card 2" 0 noProperties]
  by (simp add: defeatSystem_def restrictedGame_def
      scenarioGame_def scenarioCards_def isTargetTypeValid_def cardTypeMatches_def
      resolvedCannotBeCancelled_def noProperties_def)

text \<open>
  Claim C8. \<^verbatim>\<open>hasLegalTarget\<close> is true exactly when some candidate of the resolved list
  of targets satisfies \<^verbatim>\<open>canAffect\<close>, \<^verbatim>\<open>allTargetsLegal\<close> exactly when every
  candidate does; with no candidate the first is false and the second true.
\<close>

theorem hasLegalTarget_allTargetsLegal:
  "(hasLegalTarget sys g context ap \<longleftrightarrow>
      (\<exists>t \<in> set (targets sys g context ap). canAffect sys g t context ap)) \<and>
   (allTargetsLegal sys g context ap \<longleftrightarrow>
      (\<forall>t \<in> set (targets sys g context ap). canAffect sys g t context ap)) \<and>
   (targets sys g context ap = [] \<longrightarrow>
      \<not> hasLegalTarget sys g context ap \<and> allTargetsLegal sys g context ap)"
  by (simp add: hasLegalTarget_def allTargetsLegal_def hasLegalTargetLoop_iff
      allTargetsLegalLoop_iff)


text \<open>
  With the targets card 0 and card 2 the system has a legal target and not all targets are
  legal; a base system without properties has no target.
\<close>

theorem hasLegalTarget_allTargetsLegal_witness:
  "targets defeatSystem scenarioGame 0 noProperties = [Card 0, Card 2] \<and>
   hasLegalTarget defeatSystem scenarioGame 0 noProperties \<and>
   \<not> allTargetsLegal defeatSystem scenarioGame 0 noProperties \<and>
   targets (defeatSystem\<lparr>propertiesOrFactory := Undefined, isCardTargetSystem := False\<rparr>)
     scenarioGame 0 noProperties = [] \<and>
   \<not> hasLegalTarget (defeatSystem\<lparr>propertiesOrFactory := Undefined, isCardTargetSystem := False\<rparr>)
     scenarioGame 0 noProperties \<and>
   allTargetsLegal (defeatSystem\<lparr>propertiesOrFactory := Undefined, isCardTargetSystem := False\<rparr>)
     scenarioGame 0 noProperties"
proof -
  let ?s = "defeatSystem\<lparr>propertiesOrFactory := Undefined, isCardTargetSystem := False\<rparr>"
  have e: "targets ?s scenarioGame 0 noProperties = []"
    by (simp add: targets_def generatePropertiesFromContext_def defeatSystem_def Let_def
       Object_assign_def noProperties_def defaultProperties_def filterBoolean_def
       List.map_filter_simps defaultTargets_def)
  from hasLegalTarget_allTargetsLegal [of defeatSystem scenarioGame 0 noProperties]
    hasLegalTarget_allTargetsLegal [of ?s scenarioGame 0 noProperties]
    tg e cA0 cA2
  show ?thesis by simp
qed


text \<open>
  Claim C2. \<^verbatim>\<open>generateEvent\<close> is \<^verbatim>\<open>createEvent\<close> followed by \<^verbatim>\<open>updateEvent\<close>, and the
  condition of an event \<^verbatim>\<open>updateEvent\<close> has written, in a state \<open>g0\<close> or on an event
  \<open>event0\<close> that existed before, is the closure that calls \<^verbatim>\<open>checkEventCondition\<close>; evaluated in a later state \<open>g1\<close> it is, for a card target
  system, \<^verbatim>\<open>canAffect(event.card, event.context)\<close> in \<open>g1\<close>, whatever held in \<open>g0\<close>.
  When the target is not legal in \<open>g1\<close> the window leaves the event and the state as they
  are: the handler does not run.
\<close>

theorem condition_checked_at_apply_time:
  "generateEvent sys g0 t context ap =
     updateEvent sys (createEvent sys g0 t context ap) t context ap \<and>
   (let event = updateEvent sys event0 t context ap in
     condition event = CheckEventCondition sys ap \<and>
     evalCondition g1 event (condition event) = checkEventCondition sys g1 event ap \<and>
     (isCardTargetSystem sys \<longrightarrow>
        checkEventCondition sys g1 event ap = Inr (canAffect sys g1 t context ap) \<and>
        (\<not> canAffect sys g1 t context ap \<longrightarrow> resolveEvent event g1 = Inr (event, g1))))"
  by (simp add: Let_def generateEvent_def updateEvent_def addPropertiesToEvent_def
      checkEventCondition_def resolveEvent_def)

text \<open>
  The event to defeat card 0 is generated while card 0 is a legal target. Resolved in the
  game where card 0 has become restricted, it changes nothing; resolved in the game where
  card 0 is still legal, its handler runs.
\<close>

theorem condition_checked_at_apply_time_witness:
  "isCardTargetSystem defeatSystem \<and>
   canAffect defeatSystem scenarioGame (Card 0) 0 noProperties \<and>
   \<not> canAffect defeatSystem restrictedGame (Card 0) 0 noProperties \<and>
   checkEventCondition defeatSystem restrictedGame
     (generateEvent defeatSystem scenarioGame (Card 0) 0 noProperties) noProperties = Inr False \<and>
   resolveEvent (generateEvent defeatSystem scenarioGame (Card 0) 0 noProperties) restrictedGame
     = Inr (generateEvent defeatSystem scenarioGame (Card 0) 0 noProperties, restrictedGame) \<and>
   resolveEvent (generateEvent defeatSystem scenarioGame (Card 0) 0 noProperties) scenarioGame
     = Inr (generateEvent defeatSystem scenarioGame (Card 0) 0 noProperties,
            addMessage scenarioGame ''{0} is defeated'' [])"
proof -
  let ?e = "generateEvent defeatSystem scenarioGame (Card 0) 0 noProperties"
  have s: "isCardTargetSystem defeatSystem" by (simp add: defeatSystem_def)
  have h: "eventHandler defeatSystem = (\<lambda>d ps g. Inr (d, addMessage g ''{0} is defeated'' []))"
    by (simp add: defeatSystem_def)
  have a: "resolveEvent ?e scenarioGame = Inr (?e, addMessage scenarioGame ''{0} is defeated'' [])"
    using cA0 s
    by (simp add: resolveEvent_def generateEvent_fields checkEventCondition_def runHandler_def h
        eventData.extend_def eventData.truncate_def gameEvent.fields_def)
  from condition_checked_at_apply_time
    [of defeatSystem scenarioGame "Card 0" 0 noProperties
      "createEvent defeatSystem scenarioGame (Card 0) 0 noProperties" restrictedGame] s cA0 cAr a
  show ?thesis by (simp add: Let_def)
qed

text \<open>
  Claim C6. For an event whose card has upgrades, \<^verbatim>\<open>createContingentEvents\<close> returns one
  event of the defeat system for each upgrade that is in an arena, in their order; the
  ordering key of each is the key of the primary event minus 1, so less than it, and
  each is marked contingent.
\<close>

theorem createContingentEvents_order:
  assumes "eventCard event = Some (Card c)"
  shows "\<exists>ces. createContingentEvents defeat g event = Inr ces \<and>
           length ces = length (arenaUpgrades g c) \<and>
           (isCardTargetSystem defeat \<longrightarrow>
              map eventCard ces = map (\<lambda>u. Some (Card u)) (arenaUpgrades g c)) \<and>
           (\<forall>ce \<in> set ces. order ce = order event - 1 \<and> order ce < order event \<and>
                           isContingent ce \<and> name ce = eventName defeat)"
  using assms
  by (auto simp: createContingentEvents_def contingentLoop_append arenaUpgrades_def
      generateEvent_fields comp_def)

text \<open>
  The unit with one upgrade: one contingent event, for the upgrade, of order -1 while the
  primary event has order 0.
\<close>

theorem createContingentEvents_order_witness:
  "eventCard leavesPlayEvent = Some (Card 0) \<and>
   arenaUpgrades scenarioGame 0 = [1] \<and>
   (\<exists>ce. createContingentEvents defeatSystem scenarioGame leavesPlayEvent = Inr [ce] \<and>
         eventCard ce = Some (Card 1) \<and> order leavesPlayEvent = 0 \<and> order ce = -1 \<and>
         isContingent ce \<and> name ce = ''onCardDefeated'')"
proof -
  have c: "eventCard leavesPlayEvent = Some (Card 0)" by (simp add: leavesPlayEvent_eq)
  have a: "arenaUpgrades scenarioGame 0 = [1]"
    by (simp add: arenaUpgrades_def scenarioGame_def scenarioCards_def)
  have o: "order leavesPlayEvent = 0" by (simp add: leavesPlayEvent_eq)
  have s: "isCardTargetSystem defeatSystem" "eventName defeatSystem = ''onCardDefeated''"
    by (simp_all add: defeatSystem_def)
  from createContingentEvents_order [OF c, of defeatSystem scenarioGame] obtain ces where
    r: "createContingentEvents defeatSystem scenarioGame leavesPlayEvent = Inr ces"
    and l: "length ces = length (arenaUpgrades scenarioGame 0)"
    and m: "map eventCard ces = map (\<lambda>u. Some (Card u)) (arenaUpgrades scenarioGame 0)"
    and p: "\<forall>ce \<in> set ces. order ce = order leavesPlayEvent - 1 \<and>
              order ce < order leavesPlayEvent \<and> isContingent ce \<and>
              name ce = eventName defeatSystem"
    using s by blast
  from l a obtain ce where ces: "ces = [ce]" by (cases ces) auto
  with r m p a o s c show ?thesis by auto
qed

subsection \<open>The claim on the additional costs\<close>

text \<open>
  Claim C7, against the sentence that a failure to pay for one card does not affect
  whether the event of another card is emitted. Two runs over the targets card 0 and
  card 1, in the same state, in which card 1 has the same additional cost, paid by
  discarding the one card in the hand. In the first run card 0 has that cost too and
  pays it: the check for card 1 then finds no card to discard, and the event of card 1
  is missing. In the second run card 0 fails to pay a cost of its own: the event of
  card 1 is there.
\<close>

theorem eventsForAllTargets_interference:
  "bothDiscard scenarioGame (Card 1) = firstUnpayable scenarioGame (Card 1) \<and>
   map eventCard (events (eventsForAllTargets bothDiscard twoTargets scenarioGame 0 noProperties))
     = [Some (Card 0)] \<and>
   map eventCard (events (eventsForAllTargets firstUnpayable twoTargets scenarioGame 0 noProperties))
     = [Some (Card 1)]"
proof -
  have n: "systemName twoTargets = ''defeat''" "isCardTargetSystem twoTargets"
    by (simp_all add: twoTargets_def defeatSystem_def)
  have a: "bothDiscard scenarioGame (Card 1) = firstUnpayable scenarioGame (Card 1)"
    by (simp add: bothDiscard_def firstUnpayable_def)
  have h: "location (cards scenarioGame 2) = Location_Hand"
    by (simp add: scenarioGame_def scenarioCards_def)
  have b: "map eventCard (events (eventsForAllTargets bothDiscard twoTargets scenarioGame 0 noProperties))
     = [Some (Card 0)]"
    by (simp add: eventsForAllTargets_def generateEventsForAllTargetsCard_def twoTargets_list
        bothDiscard_def discardCost_def n h Let_def addMessage_def generateEvent_fields)
  have c: "map eventCard (events (eventsForAllTargets firstUnpayable twoTargets scenarioGame 0 noProperties))
     = [Some (Card 1)]"
    by (simp add: eventsForAllTargets_def generateEventsForAllTargetsCard_def twoTargets_list
        firstUnpayable_def discardCost_def unpayableCost_def n h Let_def addMessage_def
        generateEvent_fields)
  from a b c show ?thesis by simp
qed

text \<open>
  Claim C7, as the code has it. \<^verbatim>\<open>generateEventsForAllTargets\<close> of a card target system,
  followed by the steps it queued: the array of events holds the events of the targets
  that have no additional cost, generated during the call, and then, for the targets
  that have additional costs, taken one card at a time in the order of the target list,
  the event of each target every one of whose own costs had a legal target when it was
  checked. The variable \<^verbatim>\<open>allCostsPaid\<close> is one per card: a check that fails for one card
  leaves the variables of the others alone. The checks and the payments of a card run
  in the state the cards before it left, which is the state the whole run leaves to
  the cards after it.
\<close>

theorem eventsForAllTargets_per_card:
  "(let tl = targetList (generatePropertiesFromContext sys g c ps);
        costsOf = additionalCostsOf gev sys g;
        r = eventsForAllTargets gev sys g c ps
    in events r =
         map (\<lambda>t. generateEvent sys g t c ps) (filter (\<lambda>t. costsOf t = []) tl) @
         fst (eventsOfTargets costsOf sys c ps tl g) \<and>
       game r = snd (eventsOfTargets costsOf sys c ps tl g))"
proof -
  let ?tl = "targetList (generatePropertiesFromContext sys g c ps)"
  let ?costsOf = "additionalCostsOf gev sys g"
  let ?ev0 = "map (\<lambda>t. generateEvent sys g t c ps) (filter (\<lambda>t. ?costsOf t = []) ?tl)"
  let ?r0 = "\<lparr>game = g, allCostsPaid = (\<lambda>i. True), events = ?ev0\<rparr>"
  have r: "eventsForAllTargets gev sys g c ps =
             runSteps sys c ps
               (concat (map (\<lambda>(i, t). cardSteps i t (?costsOf t)) (enumerate 0 ?tl))) ?r0"
    by (simp add: eventsForAllTargets_def generateEventsForAllTargetsCard_def targetLoop_eq)
  have a: "\<forall>j \<ge> 0. allCostsPaid ?r0 j" by simp
  from run_all [OF a, of sys c ps ?costsOf ?tl]
  show ?thesis
    unfolding Let_def r by simp
qed

text \<open>
  Three targets and one failure: card 2 has no additional cost, card 0 pays its own,
  card 1 cannot pay its own. The event of card 1, and only that one, is left out.
\<close>

theorem eventsForAllTargets_per_card_witness:
  "targetList (generatePropertiesFromContext threeTargets scenarioGame 0 noProperties)
     = [Card 0, Card 1, Card 2] \<and>
   additionalCostsOf scenarioCosts threeTargets scenarioGame (Card 2) = [] \<and>
   fst (payAdditionalCosts threeTargets 0 noProperties (Card 0)
          (additionalCostsOf scenarioCosts threeTargets scenarioGame (Card 0)) scenarioGame) \<and>
   \<not> fst (payAdditionalCosts threeTargets 0 noProperties (Card 1)
            (additionalCostsOf scenarioCosts threeTargets scenarioGame (Card 1)) scenarioGame) \<and>
   map eventCard (events (eventsForAllTargets scenarioCosts threeTargets scenarioGame 0 noProperties))
     = [Some (Card 2), Some (Card 0)]"
proof -
  have s: "isCardTargetSystem threeTargets" by (simp add: threeTargets_def defeatSystem_def)
  have n: "systemName threeTargets = ''defeat''" by (simp add: threeTargets_def defeatSystem_def)
  have c: "additionalCostsOf scenarioCosts threeTargets scenarioGame (Card 2) = []"
    "additionalCostsOf scenarioCosts threeTargets scenarioGame (Card 0) =
       [\<lparr>actionName = ''defeat'',
             costHasLegalTarget = (\<lambda>t c g. t \<noteq> Card 1),
             costResolve = (\<lambda>t c g. (g, (\<lambda>g'. g'))),
             costGetEffectMessage = (\<lambda>t c g. ArgEffect ''pay'' [])\<rparr>]"
    "additionalCostsOf scenarioCosts threeTargets scenarioGame (Card 1) =
       [\<lparr>actionName = ''defeat'',
             costHasLegalTarget = (\<lambda>t c g. t \<noteq> Card 1),
             costResolve = (\<lambda>t c g. (g, (\<lambda>g'. g'))),
             costGetEffectMessage = (\<lambda>t c g. ArgEffect ''pay'' [])\<rparr>]"
    by (simp_all add: additionalCostsOf_def scenarioCosts_def n)
  from eventsForAllTargets_per_card [of threeTargets scenarioGame 0 noProperties scenarioCosts]
  have e: "events (eventsForAllTargets scenarioCosts threeTargets scenarioGame 0 noProperties) =
         map (\<lambda>t. generateEvent threeTargets scenarioGame t 0 noProperties)
           (filter (\<lambda>t. additionalCostsOf scenarioCosts threeTargets scenarioGame t = [])
              [Card 0, Card 1, Card 2]) @
         fst (eventsOfTargets (additionalCostsOf scenarioCosts threeTargets scenarioGame)
                threeTargets 0 noProperties [Card 0, Card 1, Card 2] scenarioGame)"
    by (simp add: Let_def threeTargets_list)
  have m: "map eventCard (events (eventsForAllTargets scenarioCosts threeTargets scenarioGame 0 noProperties))
     = [Some (Card 2), Some (Card 0)]"
    unfolding e by (simp add: c c [unfolded One_nat_def] s generateEvent_fields)
  from m c threeTargets_list show ?thesis by simp
qed
subsection \<open>The claims on the ability resolver\<close>

text \<open>
  Claim C1. When the flag \<^verbatim>\<open>cancelled\<close> of the resolver is true as the pipeline reaches
  \<^verbatim>\<open>initiateAbilityEffects\<close>, that step calls \<^verbatim>\<open>cancel()\<close> on every event of the list
  \<^verbatim>\<open>events\<close> and does nothing else, \<^verbatim>\<open>executeHandler\<close> returns at once, and whatever
  steps follow, the handler of the ability is never called and the events stay cancelled.
  A whole resolution that ends cancelled has never called the handler, and every event of
  its list is cancelled.
\<close>

theorem cancelled_resolution:
  assumes "resolverCancelled r"
  shows "execute env InitiateAbilityEffects r =
           (r\<lparr>resolverEvents := map cancel (resolverEvents r)\<rparr>, []) \<and>
         execute env ExecuteHandler r = (r, []) \<and>
         (let r' = runPipeline env (InitiateAbilityEffects # ExecuteHandler # ss) r
          in resolverCancelled r' \<and> handlerCalls r' = handlerCalls r \<and>
             resolverEvents r' = map cancel (resolverEvents r) \<and>
             (\<forall>e \<in> set (resolverEvents r'). cancelled e)) \<and>
         (let r' = resolveAbility env ab
          in resolverCancelled r' \<longrightarrow>
               handlerCalls r' = 0 \<and> (\<forall>e \<in> set (resolverEvents r'). cancelled e))"
proof -
  let ?r1 = "r\<lparr>resolverEvents := map cancel (resolverEvents r)\<rparr>"
  have a: "execute env InitiateAbilityEffects r = (?r1, [])"
    using assms by (simp add: initiateAbilityEffects_def)
  have b: "execute env ExecuteHandler r = (r, [])"
    using assms by (simp add: executeHandler_def)
  have c1: "resolverCancelled ?r1" using assms by simp
  have run: "runPipeline env (InitiateAbilityEffects # ExecuteHandler # ss) r
               = runPipeline env (ExecuteHandler # ss) ?r1"
    using a by simp
  from run_cancelled [OF c1, of env "ExecuteHandler # ss"]
  have "resolverCancelled (runPipeline env (ExecuteHandler # ss) ?r1)"
    and "handlerCalls (runPipeline env (ExecuteHandler # ss) ?r1) = handlerCalls r"
    and "resolverEvents (runPipeline env (ExecuteHandler # ss) ?r1) = map cancel (resolverEvents r)"
    by (auto simp: cancel_cancel)
  with a b run resolveAbility_cancelled [of env ab] show ?thesis
    by (simp add: Let_def cancel_def del: runPipeline.simps)
qed

text \<open>
  The resolution whose cost event ends cancelled: the resolver is cancelled when it
  reaches \<^verbatim>\<open>initiateAbilityEffects\<close>, its one event is cancelled there, and the handler
  is not called; in the resolution whose cost is paid the handler is called once.
\<close>

theorem cancelled_resolution_witness:
  "resolverCancelled unpaidResolver \<and>
   map cancelled (resolverEvents unpaidResolver) = [False] \<and>
   handlerCalls unpaidResolver = 0 \<and>
   handlerCalls (runPipeline unpaidEnvironment [InitiateAbilityEffects, ExecuteHandler]
                   unpaidResolver) = 0 \<and>
   map cancelled
     (resolverEvents (runPipeline unpaidEnvironment [InitiateAbilityEffects, ExecuteHandler]
                        unpaidResolver)) = [True] \<and>
   resolverCancelled (resolveAbility unpaidEnvironment scenarioAbility) \<and>
   handlerCalls (resolveAbility unpaidEnvironment scenarioAbility) = 0 \<and>
   map cancelled (resolverEvents (resolveAbility unpaidEnvironment scenarioAbility)) = [True] \<and>
   handlerCalls (resolveAbility scenarioEnvironment scenarioAbility) = 1"
proof -
  have c: "resolverCancelled unpaidResolver" by (simp add: unpaidResolver_def)
  have e: "map cancelled (resolverEvents unpaidResolver) = [False]"
    "handlerCalls unpaidResolver = 0"
    by (simp_all add: unpaidResolver_def GameEvent_new_def AbilityResolver_new_def)
  have ev: "map cancelled (map cancel (resolverEvents unpaidResolver)) = [True]"
    by (simp add: unpaidResolver_def GameEvent_new_def AbilityResolver_new_def cancel_def)
  have t: "handlerCalls (runPipeline unpaidEnvironment [InitiateAbilityEffects, ExecuteHandler]
                   unpaidResolver) = handlerCalls unpaidResolver \<and>
           resolverEvents (runPipeline unpaidEnvironment [InitiateAbilityEffects, ExecuteHandler]
                   unpaidResolver) = map cancel (resolverEvents unpaidResolver)"
    using cancelled_resolution [OF c, of unpaidEnvironment "[]" scenarioAbility]
    unfolding Let_def by blast
  from t c e ev unpaid_run scenario_run(2)
  show ?thesis by (simp del: runPipeline.simps)
qed

text \<open>
  Claim C5, against the sentence that the prompt is shown exactly once for an optional
  ability that was not cancelled earlier. The targeting calls of the ability are given
  the pass handler. In this resolution of an optional ability the call made by
  \<^verbatim>\<open>resolveEarlyTargets\<close> sets \<^verbatim>\<open>hasBeenShown\<close>, as a target prompt that has offered the
  pass button would: the resolution is not cancelled, it runs the handler of the
  ability, and the prompt of \<^verbatim>\<open>checkForPass\<close> is never shown.
\<close>

theorem pass_prompt_marked_by_targeting:
  "abilityOptional scenarioAbility \<and>
   \<not> resolverCancelled
        (fst (execute markingEnvironment ResolveEarlyTargets (AbilityResolver_new scenarioAbility))) \<and>
   \<not> resolverCancelled (resolveAbility markingEnvironment scenarioAbility) \<and>
   handlerCalls (resolveAbility markingEnvironment scenarioAbility) = 1 \<and>
   promptsShown (resolveAbility markingEnvironment scenarioAbility) = 0"
  by (simp add: scenario_defs markingEnvironment_def)

text \<open>
  Claim C5, as the code has it. The constructor makes a pass handler exactly for an
  optional ability, with \<^verbatim>\<open>hasBeenShown\<close> false. Whatever steps of the resolver run after
  it, in whatever order and however often, the prompt of \<^verbatim>\<open>checkForPass\<close> is never
  shown for an ability that is not optional and, when the targeting calls never clear
  \<^verbatim>\<open>hasBeenShown\<close>, at most once. In the resolution of an optional ability that comes out
  of its early targeting neither cancelled nor with \<^verbatim>\<open>hasBeenShown\<close> set, the prompt is
  shown exactly once, before the initiation window opens; the answer Pass ends the
  resolution there, cancelled. When the early targeting has set \<^verbatim>\<open>hasBeenShown\<close> the
  prompt is not shown. \<^verbatim>\<open>checkForPass\<close>, reached with neither the resolver nor the costs
  cancelled and with a handler whose flag is false, sets the flag, shows the prompt and
  queues nothing else; the prompt runs the closure of the pass handler on the answer
  Pass and does nothing on Trigger. No other step queues the prompt, and once the flag
  is true no step shows the prompt and \<^verbatim>\<open>checkForCancelOrPass\<close> does not queue
  \<^verbatim>\<open>checkForPass\<close> again.
\<close>

theorem pass_prompt_once:
  fixes env :: "'x environment"
  shows
  "(passAbilityHandlerOf (AbilityResolver_new ab :: 'x resolver) = None \<longleftrightarrow> \<not> abilityOptional ab) \<and>
   \<not> promptShown (AbilityResolver_new ab :: 'x resolver) \<and>
   (\<not> abilityOptional ab \<longrightarrow> promptsShown (runPipeline env ss (AbilityResolver_new ab)) = 0) \<and>
   (keepsShown env \<longrightarrow> promptsShown (runPipeline env ss (AbilityResolver_new ab)) \<le> 1) \<and>
   (let r1 = fst (execute env ResolveEarlyTargets (AbilityResolver_new ab));
        r2 = fst (execute env CheckForPass r1)
    in (keepsShown env \<and> abilityOptional ab \<and> \<not> resolverCancelled r1 \<and> \<not> promptShown r1
          \<longrightarrow> promptsShown (resolveAbility env ab) = 1) \<and>
       (abilityOptional ab \<and> \<not> resolverCancelled r1 \<and> \<not> promptShown r1
          \<longrightarrow> promptsShown r2 = 1 \<and> promptShown r2 \<and>
              resolveAbility env ab =
                runPipeline env [HandlerMenuPrompt, OpenInitiateAbilityEventWindow] r2 \<and>
              (promptChoice env r2 \<longrightarrow> resolveAbility env ab = passHandler r2)) \<and>
       (keepsShown env \<and> promptShown r1 \<longrightarrow> promptsShown (resolveAbility env ab) = 0)) \<and>
   (\<forall>r h. \<not> resolverCancelled r \<and> \<not> costsCancelled (costResultsOf r) \<and>
          passAbilityHandlerOf r = Some h \<and> \<not> hasBeenShown h \<longrightarrow>
      execute env CheckForPass r =
        (r\<lparr>passAbilityHandlerOf := Some (h\<lparr>hasBeenShown := True\<rparr>),
           promptsShown := promptsShown r + 1\<rparr>, [HandlerMenuPrompt])) \<and>
   (\<forall>r. execute env HandlerMenuPrompt r =
      (if promptChoice env r then r\<lparr>resolverCancelled := True, passPriority := True\<rparr> else r, [])) \<and>
   (\<forall>s r. HandlerMenuPrompt \<in> set (snd (execute env s r)) \<longrightarrow>
      s = CheckForPass \<and> \<not> promptShown r \<and> promptShown (fst (execute env s r)) \<and>
      promptsShown (fst (execute env s r)) = promptsShown r + 1) \<and>
   (\<forall>s r. promptShown r \<longrightarrow>
      promptsShown (fst (execute env s r)) = promptsShown r \<and>
      CheckForPass \<notin> set (snd (execute env CheckForCancelOrPass r)))"
proof -
  let ?r0 = "AbilityResolver_new ab :: 'x resolver"
  let ?r1 = "fst (execute env ResolveEarlyTargets ?r0)"
  let ?r2 = "fst (execute env CheckForPass ?r1)"
  have a: "passAbilityHandlerOf ?r0 = None \<longleftrightarrow> \<not> abilityOptional ab"
    by (simp add: AbilityResolver_new_def)
  have a': "\<not> promptShown ?r0"
    by (simp add: AbilityResolver_new_def promptShown_def)
  have c0: "promptsShown ?r0 = 0" by (simp add: AbilityResolver_new_def)
  have c1: "promptsShown ?r1 = 0" unfolding resolveEarlyTargets_frame by (rule c0)
  have q1: "snd (execute env ResolveEarlyTargets ?r0) = []"
    by (rule resolveEarlyTargets_frame)
  have b: "keepsShown env \<longrightarrow> promptsShown (runPipeline env ss ?r0) \<le> 1"
    using run_promptInvariant [OF _ new_promptInvariant, of env ss ab]
    by (simp add: promptInvariant_def)
  have c: "\<not> abilityOptional ab \<longrightarrow> promptsShown (runPipeline env ss ?r0) = 0"
    using run_no_handler [of ?r0 env ss] a c0 by simp
  have d2: "promptsShown ?r2 = 1 \<and> promptShown ?r2 \<and>
            resolveAbility env ab =
              runPipeline env [HandlerMenuPrompt, OpenInitiateAbilityEventWindow] ?r2 \<and>
            (promptChoice env ?r2 \<longrightarrow> resolveAbility env ab = passHandler ?r2)"
    if opt: "abilityOptional ab" and nc: "\<not> resolverCancelled ?r1" and ns: "\<not> promptShown ?r1"
  proof -
    have "passAbilityHandlerOf ?r1 \<noteq> None"
      using opt by (simp add: step_defs Let_def AbilityResolver_new_def)
    then obtain h where h: "passAbilityHandlerOf ?r1 = Some h" by auto
    have nh: "\<not> hasBeenShown h" using ns h by (simp add: promptShown_def)
    have cc: "\<not> costsCancelled (costResultsOf ?r1)"
      unfolding resolveEarlyTargets_frame
      by (simp add: AbilityResolver_new_def getCostResults_def)
    have s2: "execute env CheckForCancelOrPass ?r1 = (?r1, [CheckForPass])"
      using nc h nh by (simp add: checkForCancelOrPass_def)
    have s3: "execute env CheckForPass ?r1 =
                (?r1\<lparr>passAbilityHandlerOf := Some (h\<lparr>hasBeenShown := True\<rparr>),
                     promptsShown := promptsShown ?r1 + 1\<rparr>, [HandlerMenuPrompt])"
      using nc h nh cc by (simp add: checkForPass_def)
    have n2: "promptsShown ?r2 = 1" unfolding s3 using c1 by simp
    have sh: "promptShown ?r2" unfolding s3 by (simp add: promptShown_def)
    have run: "resolveAbility env ab =
                 runPipeline env [HandlerMenuPrompt, OpenInitiateAbilityEventWindow] ?r2"
      unfolding resolveAbility_def initialise_def
      using q1 s2 s3 by simp
    have pass: "resolveAbility env ab = passHandler ?r2" if "promptChoice env ?r2"
      unfolding run using that
      by (simp add: handlerMenuPrompt_def openInitiateAbilityEventWindow_def passHandler_def)
    from n2 sh run pass show ?thesis by blast
  qed
  have d1: "promptsShown (resolveAbility env ab) = 1"
    if k: "keepsShown env" and opt: "abilityOptional ab" and nc: "\<not> resolverCancelled ?r1"
      and ns: "\<not> promptShown ?r1"
  proof -
    from d2 [OF opt nc ns] have n2: "promptsShown ?r2 = 1" and sh: "promptShown ?r2"
      and run: "resolveAbility env ab =
                  runPipeline env [HandlerMenuPrompt, OpenInitiateAbilityEventWindow] ?r2"
      by blast+
    show ?thesis
      unfolding run using run_count_shown [OF k sh] n2 by (simp del: runPipeline.simps)
  qed
  have d3: "promptsShown (resolveAbility env ab) = 0"
    if k: "keepsShown env" and sh: "promptShown ?r1"
  proof -
    have run: "resolveAbility env ab =
                 runPipeline env [CheckForCancelOrPass, OpenInitiateAbilityEventWindow] ?r1"
      unfolding resolveAbility_def initialise_def using q1 by simp
    show ?thesis
      unfolding run using run_count_shown [OF k sh] c1 by (simp del: runPipeline.simps)
  qed
  have g: "\<forall>r h. \<not> resolverCancelled r \<and> \<not> costsCancelled (costResultsOf r) \<and>
          passAbilityHandlerOf r = Some h \<and> \<not> hasBeenShown h \<longrightarrow>
      execute env CheckForPass r =
        (r\<lparr>passAbilityHandlerOf := Some (h\<lparr>hasBeenShown := True\<rparr>),
           promptsShown := promptsShown r + 1\<rparr>, [HandlerMenuPrompt])"
    by (simp add: checkForPass_def)
  have g': "\<forall>r. execute env HandlerMenuPrompt r =
      (if promptChoice env r then r\<lparr>resolverCancelled := True, passPriority := True\<rparr> else r, [])"
    by (simp add: handlerMenuPrompt_def passHandler_def)
  have e: "\<forall>s r. HandlerMenuPrompt \<in> set (snd (execute env s r)) \<longrightarrow>
      s = CheckForPass \<and> \<not> promptShown r \<and> promptShown (fst (execute env s r)) \<and>
      promptsShown (fst (execute env s r)) = promptsShown r + 1"
  proof (intro allI impI)
    fix s and r :: "'x resolver"
    assume "HandlerMenuPrompt \<in> set (snd (execute env s r))"
    then show "s = CheckForPass \<and> \<not> promptShown r \<and> promptShown (fst (execute env s r)) \<and>
      promptsShown (fst (execute env s r)) = promptsShown r + 1"
      by (cases s)
        (auto simp: step_defs Let_def promptShown_def queueInitiateAbilitySteps_def
          split: option.splits if_splits)
  qed
  have f: "\<forall>s r. promptShown r \<longrightarrow>
      promptsShown (fst (execute env s r)) = promptsShown r \<and>
      CheckForPass \<notin> set (snd (execute env CheckForCancelOrPass r))"
  proof (intro allI impI)
    fix s and r :: "'x resolver"
    assume sh: "promptShown r"
    have "CheckForPass \<notin> set (snd (execute env CheckForCancelOrPass r))"
      using sh by (auto simp: checkForCancelOrPass_def promptShown_def split: option.splits)
    with execute_count_shown [OF sh, of env s]
    show "promptsShown (fst (execute env s r)) = promptsShown r \<and>
      CheckForPass \<notin> set (snd (execute env CheckForCancelOrPass r))" by simp
  qed
  from a a' b c d1 d2 d3 g g' e f show ?thesis unfolding Let_def by blast
qed

text \<open>
  The optional ability in an environment whose targeting calls leave the pass handler
  alone: one prompt in its resolution, and still one when the two checks run again
  after it; when the player answers Pass to the prompt the resolution ends cancelled
  without calling the handler of the ability; no prompt when the early targeting has
  set the flag, and none for the same ability when it is not optional.
\<close>

theorem pass_prompt_once_witness:
  "keepsShown scenarioEnvironment \<and> keepsShown passingEnvironment \<and>
   keepsShown markingEnvironment \<and>
   promptShown
     (fst (execute markingEnvironment ResolveEarlyTargets (AbilityResolver_new scenarioAbility))) \<and>
   promptsShown (resolveAbility markingEnvironment scenarioAbility) = 0 \<and>
   abilityOptional scenarioAbility \<and>
   \<not> resolverCancelled
        (fst (execute scenarioEnvironment ResolveEarlyTargets (AbilityResolver_new scenarioAbility))) \<and>
   \<not> promptShown
        (fst (execute scenarioEnvironment ResolveEarlyTargets (AbilityResolver_new scenarioAbility))) \<and>
   promptsShown (resolveAbility scenarioEnvironment scenarioAbility) = 1 \<and>
   promptsShown (resolveAbility passingEnvironment scenarioAbility) = 1 \<and>
   resolverCancelled (resolveAbility passingEnvironment scenarioAbility) \<and>
   passPriority (resolveAbility passingEnvironment scenarioAbility) \<and>
   handlerCalls (resolveAbility passingEnvironment scenarioAbility) = 0 \<and>
   \<not> abilityOptional (scenarioAbility\<lparr>abilityOptional := False\<rparr>) \<and>
   passAbilityHandlerOf
     (AbilityResolver_new (scenarioAbility\<lparr>abilityOptional := False\<rparr>) :: unit resolver) = None \<and>
   promptsShown
     (runPipeline scenarioEnvironment (initialise @ [CheckForPass, CheckForCancelOrPass])
        (AbilityResolver_new (scenarioAbility\<lparr>abilityOptional := False\<rparr>))) = 0 \<and>
   promptsShown
     (runPipeline scenarioEnvironment (initialise @ [CheckForPass, CheckForCancelOrPass])
        (AbilityResolver_new scenarioAbility)) = 1"
proof -
  have o: "abilityOptional scenarioAbility" by (simp add: scenarioAbility_def)
  have n: "\<not> resolverCancelled
        (fst (execute scenarioEnvironment ResolveEarlyTargets (AbilityResolver_new scenarioAbility)))"
    "\<not> promptShown
        (fst (execute scenarioEnvironment ResolveEarlyTargets (AbilityResolver_new scenarioAbility)))"
    "\<not> resolverCancelled
        (fst (execute passingEnvironment ResolveEarlyTargets (AbilityResolver_new scenarioAbility)))"
    "\<not> promptShown
        (fst (execute passingEnvironment ResolveEarlyTargets (AbilityResolver_new scenarioAbility)))"
    by (simp_all add: scenario_defs passingEnvironment_def promptShown_def)
  have p: "promptChoice passingEnvironment r" for r
    by (simp add: passingEnvironment_def)
  have m: "promptsShown
     (runPipeline scenarioEnvironment (initialise @ [CheckForPass, CheckForCancelOrPass])
        (AbilityResolver_new scenarioAbility)) = 1"
    by (simp add: scenario_defs)
  have h0: "handlerCalls
     (fst (execute passingEnvironment CheckForPass
        (fst (execute passingEnvironment ResolveEarlyTargets (AbilityResolver_new scenarioAbility))))) = 0"
    by (simp add: scenario_defs passingEnvironment_def)
  have km: "keepsShown markingEnvironment"
    by (simp add: keepsShown_def markingEnvironment_def scenarioEnvironment_def)
  have pm: "promptShown
     (fst (execute markingEnvironment ResolveEarlyTargets (AbilityResolver_new scenarioAbility)))"
    by (simp add: scenario_defs markingEnvironment_def promptShown_def)
  from pass_prompt_once [of scenarioAbility markingEnvironment "[]"]
  have s0: "promptsShown (resolveAbility markingEnvironment scenarioAbility) = 0"
    using km pm unfolding Let_def by blast
  from pass_prompt_once [of scenarioAbility scenarioEnvironment "[]"]
  have s1: "promptsShown (resolveAbility scenarioEnvironment scenarioAbility) = 1"
    using o n scenario_keepsShown unfolding Let_def by blast
  from pass_prompt_once [of scenarioAbility passingEnvironment "[]"]
  have s2: "promptsShown (resolveAbility passingEnvironment scenarioAbility) = 1"
    and s3: "resolveAbility passingEnvironment scenarioAbility =
       passHandler (fst (execute passingEnvironment CheckForPass
        (fst (execute passingEnvironment ResolveEarlyTargets (AbilityResolver_new scenarioAbility)))))"
    using o n p scenario_keepsShown unfolding Let_def by blast+
  from pass_prompt_once [of "scenarioAbility\<lparr>abilityOptional := False\<rparr>" scenarioEnvironment
      "initialise @ [CheckForPass, CheckForCancelOrPass]"]
  have s4: "passAbilityHandlerOf
     (AbilityResolver_new (scenarioAbility\<lparr>abilityOptional := False\<rparr>) :: unit resolver) = None"
    and s5: "promptsShown
     (runPipeline scenarioEnvironment (initialise @ [CheckForPass, CheckForCancelOrPass])
        (AbilityResolver_new (scenarioAbility\<lparr>abilityOptional := False\<rparr>))) = 0"
    by simp_all
  have s6: "resolverCancelled (resolveAbility passingEnvironment scenarioAbility)"
    "passPriority (resolveAbility passingEnvironment scenarioAbility)"
    "handlerCalls (resolveAbility passingEnvironment scenarioAbility) = 0"
    unfolding s3 using h0 by (simp_all add: passHandler_def)
  from o n(1,2) m s0 s1 s2 s4 s5 s6 scenario_keepsShown km pm show ?thesis
    by (simp del: runPipeline.simps)
qed
subsection \<open>The claim on the cards that leave play\<close>




end
